theory Spec2Isabelle
  imports Main "HOL-Library.Sublist"
begin

section \<open>Python values and builtins used by the SOAP adapters\<close>

text \<open>
  The service modules under \<open>webapp/servicios\<close> are Python functions that build a SOAP
  envelope with an f-string, post it with \<open>requests.post\<close>, and read the answer with
  \<open>xml.etree.ElementTree\<close>. A Python \<open>str\<close> is modelled as a \<open>string\<close> in which every
  \<open>char\<close> stands for one code point below 256.
\<close>

subsection \<open>Strings: \<open>str.strip\<close>, \<open>str.lower\<close>, \<open>in\<close>, \<open>str.split\<close>\<close>

definition is_space :: "char \<Rightarrow> bool" where
  \<comment> \<open>\<open>str.isspace\<close> on the code points below 256\<close>
  "is_space c = (of_char c \<in> {9, 10, 11, 12, 13, 28, 29, 30, 31, 32, 133, 160 :: nat})"

definition py_strip :: "string \<Rightarrow> string" where
  "py_strip s = rev (dropWhile is_space (rev (dropWhile is_space s)))"

definition lower_char :: "char \<Rightarrow> char" where
  \<comment> \<open>\<open>A\<close>..\<open>Z\<close> and the Latin-1 capitals (0xC0..0xDE without 0xD7) move up by 32\<close>
  "lower_char c =
     (let n = (of_char c :: nat)
      in if (65 \<le> n \<and> n \<le> 90) \<or> (192 \<le> n \<and> n \<le> 222 \<and> n \<noteq> 215)
         then char_of (n + 32) else c)"

definition py_lower :: "string \<Rightarrow> string" where
  "py_lower s = map lower_char s"

fun py_contains :: "string \<Rightarrow> string \<Rightarrow> bool" where
  \<comment> \<open>\<open>sub in s\<close>\<close>
  "py_contains sub [] = (sub = [])"
| "py_contains sub (c # cs) = (prefix sub (c # cs) \<or> py_contains sub cs)"

fun split_scan :: "string \<Rightarrow> nat \<Rightarrow> string \<Rightarrow> string \<Rightarrow> string list" where
  \<comment> \<open>left to right: \<open>skip\<close> characters of a separator just matched are still to be passed,
      \<open>cur\<close> is the piece being collected, reversed\<close>
  "split_scan sep skip cur [] = [rev cur]"
| "split_scan sep skip cur (c # cs) =
     (if 0 < skip then split_scan sep (skip - 1) cur cs
      else if prefix sep (c # cs) then rev cur # split_scan sep (length sep - 1) [] cs
      else split_scan sep 0 (c # cur) cs)"

definition py_split :: "string \<Rightarrow> string \<Rightarrow> string list" where
  \<comment> \<open>\<open>s.split(sep)\<close> for a separator that is not empty\<close>
  "py_split sep s = split_scan sep 0 [] s"

subsection \<open>Integers: \<open>str(int)\<close> and \<open>int(str)\<close>\<close>

definition digit_char :: "nat \<Rightarrow> char" where
  "digit_char d = char_of (48 + d)"

fun dec_nat :: "nat \<Rightarrow> string" where
  "dec_nat n = (if n < 10 then [digit_char n] else dec_nat (n div 10) @ [digit_char (n mod 10)])"

declare dec_nat.simps [simp del]

definition str_int :: "int \<Rightarrow> string" where
  "str_int i = (if i < 0 then CHR ''-'' # dec_nat (nat (- i)) else dec_nat (nat i))"

definition is_digit :: "char \<Rightarrow> bool" where
  "is_digit c = (48 \<le> (of_char c :: nat) \<and> (of_char c :: nat) \<le> 57)"

definition digit_val :: "char \<Rightarrow> nat" where
  "digit_val c = of_char c - 48"

definition is_int_space :: "char \<Rightarrow> bool" where
  \<comment> \<open>the blanks \<open>int(s)\<close> skips around the literal: tab to carriage return and the space, and
      U+0085 and U+00A0, which it first turns into a space; 0x1C to 0x1F are not among them\<close>
  "is_int_space c = (of_char c \<in> {9, 10, 11, 12, 13, 32, 133, 160 :: nat})"

definition int_max_str_digits :: nat where
  \<comment> \<open>\<open>sys.get_int_max_str_digits()\<close>, at its default\<close>
  "int_max_str_digits = 4300"

fun adjacent_underscores :: "string \<Rightarrow> bool" where
  "adjacent_underscores [] = False"
| "adjacent_underscores [c] = False"
| "adjacent_underscores (c # d # ds) =
     ((c = CHR ''_'' \<and> d = CHR ''_'') \<or> adjacent_underscores (d # ds))"

definition valid_run :: "string \<Rightarrow> bool" where
  \<comment> \<open>a run of digits and underscores is a literal when it starts and ends with a digit and
      no two underscores are adjacent\<close>
  "valid_run run =
     (run \<noteq> [] \<and> is_digit (hd run) \<and> is_digit (last run) \<and> \<not> adjacent_underscores run)"

datatype int_literal = Invalid | TooLong nat | IntValue int

definition read_int :: "string \<Rightarrow> int_literal" where
  \<comment> \<open>\<open>int(s)\<close> in base 10, in the order CPython works: blanks, a sign, the run of digits
      and underscores, the limit on the number of digits, then the blanks after the run\<close>
  "read_int s =
     (let t = dropWhile is_int_space s;
          negative = (case t of [] \<Rightarrow> False | c # cs \<Rightarrow> c = CHR ''-'');
          u = (case t of [] \<Rightarrow> [] | c # cs \<Rightarrow> if c = CHR ''-'' \<or> c = CHR ''+'' then cs else t);
          run = takeWhile (\<lambda>c. is_digit c \<or> c = CHR ''_'') u;
          rest = dropWhile (\<lambda>c. is_digit c \<or> c = CHR ''_'') u;
          digits = filter is_digit run
      in if \<not> valid_run run then Invalid
         else if int_max_str_digits < length digits then TooLong (length digits)
         else if dropWhile is_int_space rest \<noteq> [] then Invalid
         else IntValue ((if negative then - 1 else 1)
                        * int (foldl (\<lambda>a c. 10 * a + digit_val c) 0 digits)))"

definition parse_int :: "string \<Rightarrow> int option" where
  \<comment> \<open>the value of \<open>int(s)\<close> when it returns one\<close>
  "parse_int s = (case read_int s of IntValue n \<Rightarrow> Some n | _ \<Rightarrow> None)"

subsection \<open>Exceptions\<close>

datatype exn =
    RequestException string
  | ParseError string
  | AttributeError string
  | ValueError string
  | IndexError string
  | TypeError string
  | OtherError string

fun str_exn :: "exn \<Rightarrow> string" where
  \<comment> \<open>\<open>str(ex)\<close>: every exception carries its message\<close>
  "str_exn (RequestException m) = m"
| "str_exn (ParseError m) = m"
| "str_exn (AttributeError m) = m"
| "str_exn (ValueError m) = m"
| "str_exn (IndexError m) = m"
| "str_exn (TypeError m) = m"
| "str_exn (OtherError m) = m"

definition py_index :: "'a list \<Rightarrow> nat \<Rightarrow> exn + 'a" where
  \<comment> \<open>\<open>xs[i]\<close> for an index that is not negative\<close>
  "py_index xs i = (if i < length xs then Inr (xs ! i) else Inl (IndexError ''list index out of range''))"

definition none_has_no_attribute :: "string \<Rightarrow> exn" where
  \<comment> \<open>what \<open>None.strip()\<close> raises\<close>
  "none_has_no_attribute a =
     AttributeError ([CHR 0x27] @ ''NoneType'' @ [CHR 0x27] @ '' object has no attribute ''
                     @ [CHR 0x27] @ a @ [CHR 0x27])"

definition hex_digit :: "nat \<Rightarrow> char" where
  "hex_digit d = (if d < 10 then char_of (48 + d) else char_of (87 + d))"

definition repr_char :: "char \<Rightarrow> char \<Rightarrow> string" where
  \<comment> \<open>one character inside \<open>repr(s)\<close>, for the quote \<open>q\<close> chosen\<close>
  "repr_char q c =
     (let n = (of_char c :: nat)
      in if c = CHR 0x5C then [CHR 0x5C, CHR 0x5C]
         else if c = q then [CHR 0x5C, q]
         else if n = 9 then [CHR 0x5C, CHR ''t'']
         else if n = 10 then [CHR 0x5C, CHR ''n'']
         else if n = 13 then [CHR 0x5C, CHR ''r'']
         else if n < 32 \<or> (127 \<le> n \<and> n \<le> 160) \<or> n = 173
              then [CHR 0x5C, CHR ''x'', hex_digit (n div 16), hex_digit (n mod 16)]
         else [c])"

definition py_repr :: "string \<Rightarrow> string" where
  \<comment> \<open>\<open>repr(s)\<close>: double quotes only when the string has a single quote and no double one\<close>
  "py_repr s =
     (let q = (if CHR 0x27 \<in> set s \<and> CHR 0x22 \<notin> set s then CHR 0x22 else CHR 0x27)
      in q # concat (map (repr_char q) s) @ [q])"

definition py_int :: "string \<Rightarrow> exn + int" where
  \<comment> \<open>\<open>int(s)\<close> on a string; the message of a bad literal shows at most 200 characters of
      its \<open>repr\<close>\<close>
  "py_int s =
     (case read_int s of
        IntValue n \<Rightarrow> Inr n
      | TooLong d \<Rightarrow>
          Inl (ValueError (''Exceeds the limit ('' @ dec_nat int_max_str_digits
                 @ '' digits) for integer string conversion: value has '' @ dec_nat d
                 @ '' digits; use sys.set_int_max_str_digits() to increase the limit''))
      | Invalid \<Rightarrow>
          Inl (ValueError (''invalid literal for int() with base 10: '' @ take 200 (py_repr s))))"

subsection \<open>Request field values and returned values\<close>

text \<open>
  The fields of a request dictionary and the scalar arguments of the adapters are \<open>None\<close>,
  a \<open>bool\<close>, an \<open>int\<close> or a \<open>str\<close>. Returned values are dictionaries in insertion order,
  lists and scalars.
\<close>

datatype scalar = SNone | SBool bool | SInt int | SStr string

fun isinstance_int :: "scalar \<Rightarrow> bool" where
  \<comment> \<open>\<open>isinstance(v, int)\<close>: \<open>bool\<close> is a subclass of \<open>int\<close>\<close>
  "isinstance_int (SInt _) = True"
| "isinstance_int (SBool _) = True"
| "isinstance_int _ = False"

fun isinstance_str :: "scalar \<Rightarrow> bool" where
  "isinstance_str (SStr _) = True"
| "isinstance_str _ = False"

fun int_value :: "scalar \<Rightarrow> int" where
  \<comment> \<open>the number an \<open>int\<close> instance compares as\<close>
  "int_value (SInt n) = n"
| "int_value (SBool b) = (if b then 1 else 0)"
| "int_value _ = 0"

fun truthy :: "scalar \<Rightarrow> bool" where
  "truthy SNone = False"
| "truthy (SBool b) = b"
| "truthy (SInt n) = (n \<noteq> 0)"
| "truthy (SStr s) = (s \<noteq> [])"

fun py_str :: "scalar \<Rightarrow> string" where
  \<comment> \<open>\<open>str(v)\<close>, which is also what an f-string field \<open>{v}\<close> inserts. An \<open>int\<close> is shown
      in decimal; \<open>str\<close> raises \<open>ValueError\<close> for an \<open>int\<close> of more than
      \<open>int_max_str_digits\<close> digits, and the fields of a record are taken below that limit\<close>
  "py_str SNone = ''None''"
| "py_str (SBool b) = (if b then ''True'' else ''False'')"
| "py_str (SInt n) = str_int n"
| "py_str (SStr s) = s"

definition dict_get :: "(string \<rightharpoonup> scalar) \<Rightarrow> string \<Rightarrow> scalar \<Rightarrow> scalar" where
  \<comment> \<open>\<open>d.get(k, default)\<close>\<close>
  "dict_get d k dflt = (case d k of None \<Rightarrow> dflt | Some v \<Rightarrow> v)"

datatype pyval =
    PNone
  | PBool bool
  | PInt int
  | PStr string
  | PList "pyval list"
  | PDict "(string \<times> pyval) list"

fun has_key :: "string \<Rightarrow> pyval \<Rightarrow> bool" where
  \<comment> \<open>\<open>k in v\<close> for a dictionary\<close>
  "has_key k (PDict kvs) = (k \<in> fst ` set kvs)"
| "has_key k _ = False"

definition is_failure :: "pyval \<Rightarrow> bool" where
  \<comment> \<open>the marker the views test: \<open>"error" in resultado\<close>\<close>
  "is_failure v = has_key ''error'' v"

definition error_dict :: "exn \<Rightarrow> pyval" where
  \<comment> \<open>\<open>except Exception as ex: return {"error": str(ex)}\<close>\<close>
  "error_dict ex = PDict [(''error'', PStr (str_exn ex))]"

subsection \<open>ElementTree\<close>

datatype xml = Element (tag: string) (elem_text: "string option") (children: "xml list")

definition tem :: "string \<Rightarrow> string" where
  \<comment> \<open>a name under the prefix bound to \<open>http://tempuri.org/\<close>\<close>
  "tem name = ''{http://tempuri.org/}'' @ name"

fun descendants :: "xml \<Rightarrow> xml list" where
  \<comment> \<open>the elements below a node, in document order\<close>
  "descendants (Element t x cs) = concat (map (\<lambda>c. c # descendants c) cs)"

definition find_desc :: "string \<Rightarrow> xml \<Rightarrow> xml option" where
  \<comment> \<open>\<open>root.find(".//name", ns)\<close>\<close>
  "find_desc name root = List.find (\<lambda>c. tag c = name) (descendants root)"

definition findall_desc :: "string \<Rightarrow> xml \<Rightarrow> xml list" where
  \<comment> \<open>\<open>root.findall(".//name", ns)\<close>\<close>
  "findall_desc name root = filter (\<lambda>c. tag c = name) (descendants root)"

definition find_child :: "string \<Rightarrow> xml \<Rightarrow> xml option" where
  \<comment> \<open>\<open>node.find("name", ns)\<close>\<close>
  "find_child name node = List.find (\<lambda>c. tag c = name) (children node)"

definition findall :: "string \<Rightarrow> xml \<Rightarrow> xml list" where
  \<comment> \<open>\<open>node.findall("name", ns)\<close>\<close>
  "findall name node = filter (\<lambda>c. tag c = name) (children node)"

definition findtext :: "string \<Rightarrow> string \<Rightarrow> xml \<Rightarrow> string" where
  \<comment> \<open>\<open>node.findtext("name", default, ns)\<close>: the default when no child matches, and
      \<open>""\<close> for a child without text\<close>
  "findtext name dflt node =
     (case find_child name node of
        None \<Rightarrow> dflt
      | Some c \<Rightarrow> (case elem_text c of None \<Rightarrow> [] | Some s \<Rightarrow> s))"

subsection \<open>The HTTP client and the parser as the environment\<close>

record request =
  url :: string
  data :: string
  headers :: "(string \<times> string) list"
  timeout :: nat

record response =
  status_code :: int
  resp_text :: string

record env =
  post :: "request \<Rightarrow> exn + response"
  fromstring :: "string \<Rightarrow> exn + xml"
  now_isoformat :: "nat \<Rightarrow> string"
  now_strftime :: "nat \<Rightarrow> string"

text \<open>
  \<open>now_isoformat e k\<close> is what the call number \<open>k\<close> of \<open>datetime.now().isoformat()\<close> inside
  an adapter returns, and \<open>now_strftime e k\<close> what the call number \<open>k\<close> of
  \<open>datetime.now().strftime("%Y-%m-%dT%H:%M:%S")\<close> returns. The status of a response comes
  from the HTTP client, which accepts three digits only.
\<close>

section \<open>The adapters\<close>

text \<open>
  Every adapter returns its value together with the requests it handed to
  \<open>requests.post\<close>, in order. The logger calls are left out: they do not change
  what is returned.
\<close>

fun join_lines :: "string list \<Rightarrow> string" where
  \<comment> \<open>the lines of a triple-quoted literal, with the line feeds between them\<close>
  "join_lines [] = []"
| "join_lines [l] = l"
| "join_lines (l # m # ls) = l @ [CHR 0x0A] @ join_lines (m # ls)"

definition http_error :: "response \<Rightarrow> pyval" where
  \<comment> \<open>\<open>{"error": f"HTTP {response.status_code}", "detalle": response.text}\<close>\<close>
  "http_error r =
     PDict [(''error'', PStr (''HTTP '' @ str_int (status_code r))),
            (''detalle'', PStr (resp_text r))]"

definition try_except :: "exn + pyval \<Rightarrow> pyval" where
  \<comment> \<open>\<open>try: ... except Exception as ex: return {"error": str(ex)}\<close>\<close>
  "try_except r = (case r of Inl ex \<Rightarrow> error_dict ex | Inr v \<Rightarrow> v)"

definition text_is_true :: "string option \<Rightarrow> exn + bool" where
  \<comment> \<open>\<open>result_node.text.strip().lower() == "true"\<close>\<close>
  "text_is_true t =
     (case t of
        None \<Rightarrow> Inl (none_has_no_attribute ''strip'')
      | Some s \<Rightarrow> Inr (py_lower (py_strip s) = ''true''))"

subsection \<open>wsHotel\<close>

definition SOAP_URL_Hotel :: string where
  "SOAP_URL_Hotel =
     ''https://realdecuenca-btccaacvcpgyadhb.canadacentral-01.azurewebsites.net/WS_GestionHotel.asmx''"

definition hotel_request :: "string \<Rightarrow> string \<Rightarrow> request" where
  \<comment> \<open>\<open>requests.post(SOAP_URL, data=soap_body.encode("utf-8"), headers=headers, timeout=30)\<close>
      with the SOAP 1.1 headers of the named operation\<close>
  "hotel_request operation soap_body =
     \<lparr>url = SOAP_URL_Hotel, data = soap_body,
      headers = [(''Content-Type'', ''text/xml; charset=utf-8''),
                 (''SOAPAction'', ''http://tempuri.org/'' @ operation)],
      timeout = 30\<rparr>"

definition actualizarHotel_soap_body :: "string \<Rightarrow> string \<Rightarrow> string \<Rightarrow> string \<Rightarrow> string \<Rightarrow> string" where
  "actualizarHotel_soap_body hotel_id nombre fecha_registro ultima_fecha_cambio es_activo =
     join_lines
      [''<?xml version=\"1.0\" encoding=\"utf-8\"?>'',
       ''        <soapenv:Envelope xmlns:soapenv=\"http://schemas.xmlsoap.org/soap/envelope/\"'',
       ''                          xmlns:tem=\"http://tempuri.org/\">'',
       ''          <soapenv:Header/>'',
       ''          <soapenv:Body>'',
       ''            <tem:actualizarHotel>'',
       ''              <tem:hotelEditado>'',
       ''                <tem:Id>'' @ hotel_id @ ''</tem:Id>'',
       ''                <tem:Nombre>'' @ nombre @ ''</tem:Nombre>'',
       ''                <tem:FechaRegistro>'' @ fecha_registro @ ''</tem:FechaRegistro>'',
       ''                <tem:UltimaFechaCambio>'' @ ultima_fecha_cambio @ ''</tem:UltimaFechaCambio>'',
       ''                <tem:EsActivo>'' @ es_activo @ ''</tem:EsActivo>'',
       ''              </tem:hotelEditado>'',
       ''            </tem:actualizarHotel>'',
       ''          </soapenv:Body>'',
       ''        </soapenv:Envelope>'']"

definition actualizarHotel_result :: "scalar \<Rightarrow> scalar \<Rightarrow> xml \<Rightarrow> exn + pyval" where
  \<comment> \<open>the statements after \<open>ET.fromstring\<close>\<close>
  "actualizarHotel_result hid nombre root =
     (case find_desc (tem ''actualizarHotelResult'') root of
        None \<Rightarrow>
          Inr (PDict [(''exito'', PBool False),
                      (''mensaje'', PStr (''No se pudo determinar si la actualizaci'' @ [CHR 0xF3] @ ''n fue exitosa.''))])
      | Some result_node \<Rightarrow>
          (case text_is_true (elem_text result_node) of
             Inl ex \<Rightarrow> Inl ex
           | Inr resultado \<Rightarrow>
               if resultado
               then Inr (PDict [(''exito'', PBool True),
                                (''mensaje'', PStr (''Hotel '' @ [CHR 0x27] @ py_str nombre @ [CHR 0x27] @ '' actualizado exitosamente.''))])
               else Inr (PDict [(''exito'', PBool False),
                                (''mensaje'', PStr (''No se pudo actualizar el hotel.''))])))"

definition actualizarHotel_request :: "env \<Rightarrow> (string \<rightharpoonup> scalar) \<Rightarrow> scalar \<Rightarrow> scalar \<Rightarrow> request" where
  "actualizarHotel_request e hotel hid nombre =
     (let fecha_registro = dict_get hotel ''FechaRegistro'' (SStr (now_isoformat e 0));
          ultima_fecha_cambio = dict_get hotel ''UltimaFechaCambio'' (SStr (now_isoformat e 1));
          es_activo = py_lower (py_str (dict_get hotel ''EsActivo'' (SBool True)))
      in hotel_request ''actualizarHotel''
           (actualizarHotel_soap_body (py_str hid) (py_str nombre) (py_str fecha_registro)
              (py_str ultima_fecha_cambio) es_activo))"

definition actualizarHotel :: "env \<Rightarrow> (string \<rightharpoonup> scalar) \<Rightarrow> pyval \<times> request list" where
  "actualizarHotel e hotel =
     (case hotel ''Id'' of
        None \<Rightarrow> (PDict [(''error'', PStr (''El campo '' @ [CHR 0x27] @ ''Id'' @ [CHR 0x27] @ '' del hotel es obligatorio y debe ser un n'' @ [CHR 0xFA] @ ''mero entero v'' @ [CHR 0xE1] @ ''lido.''))], [])
      | Some hid \<Rightarrow>
          if \<not> isinstance_int hid \<or> int_value hid \<le> 0
          then (PDict [(''error'', PStr (''El campo '' @ [CHR 0x27] @ ''Id'' @ [CHR 0x27] @ '' del hotel es obligatorio y debe ser un n'' @ [CHR 0xFA] @ ''mero entero v'' @ [CHR 0xE1] @ ''lido.''))], [])
          else
            (case hotel ''Nombre'' of
               None \<Rightarrow> (PDict [(''error'', PStr (''El campo '' @ [CHR 0x27] @ ''Nombre'' @ [CHR 0x27] @ '' es obligatorio para actualizar un hotel.''))], [])
             | Some nombre \<Rightarrow>
                 if \<not> truthy nombre
                 then (PDict [(''error'', PStr (''El campo '' @ [CHR 0x27] @ ''Nombre'' @ [CHR 0x27] @ '' es obligatorio para actualizar un hotel.''))], [])
                 else
                   (let rq = actualizarHotel_request e hotel hid nombre
                    in (try_except
                          (case post e rq of
                             Inl ex \<Rightarrow> Inl ex
                           | Inr response \<Rightarrow>
                               if status_code response \<noteq> 200 then Inr (http_error response)
                               else (case fromstring e (resp_text response) of
                                       Inl ex \<Rightarrow> Inl ex
                                     | Inr root \<Rightarrow> actualizarHotel_result hid nombre root)),
                        [rq]))))"

record hotel_rec =
  hId :: int
  hNombre :: string
  hFechaRegistro :: string
  hUltimaFechaCambio :: string
  hEsActivo :: bool

definition hotel_dict :: "hotel_rec \<Rightarrow> pyval" where
  "hotel_dict h =
     PDict [(''Id'', PInt (hId h)), (''Nombre'', PStr (hNombre h)),
            (''FechaRegistro'', PStr (hFechaRegistro h)),
            (''UltimaFechaCambio'', PStr (hUltimaFechaCambio h)),
            (''EsActivo'', PBool (hEsActivo h))]"

definition hotel_of_node :: "xml \<Rightarrow> exn + hotel_rec" where
  \<comment> \<open>the dictionary display that \<open>buscarHotelPorNombre\<close>, \<open>seleccionarHotelPorId\<close> and
      \<open>seleccionarHoteles\<close> each write out; only \<open>int(...)\<close> can raise\<close>
  "hotel_of_node node =
     (case py_int (findtext (tem ''Id'') ''0'' node) of
        Inl ex \<Rightarrow> Inl ex
      | Inr i \<Rightarrow>
          Inr \<lparr>hId = i,
               hNombre = findtext (tem ''Nombre'') [] node,
               hFechaRegistro = findtext (tem ''FechaRegistro'') [] node,
               hUltimaFechaCambio = findtext (tem ''UltimaFechaCambio'') [] node,
               hEsActivo = (py_lower (findtext (tem ''EsActivo'') ''false'' node) = ''true'')\<rparr>)"

definition buscarHotelPorNombre_soap_body :: "string \<Rightarrow> string" where
  "buscarHotelPorNombre_soap_body nombre =
     join_lines
      [''<?xml version=\"1.0\" encoding=\"utf-8\"?>'',
       ''        <soapenv:Envelope xmlns:soapenv=\"http://schemas.xmlsoap.org/soap/envelope/\"'',
       ''                          xmlns:tem=\"http://tempuri.org/\">'',
       ''           <soapenv:Header/>'',
       ''           <soapenv:Body>'',
       ''              <tem:buscarHotelPorNombre>'',
       ''                 <tem:nombre>'' @ nombre @ ''</tem:nombre>'',
       ''              </tem:buscarHotelPorNombre>'',
       ''           </soapenv:Body>'',
       ''        </soapenv:Envelope>'']"

fun buscarHotelPorNombre_loop :: "xml list \<Rightarrow> hotel_rec list \<Rightarrow> exn + hotel_rec list" where
  \<comment> \<open>\<open>for hotel_node in ...: hotel = {...}; if hotel["Id"] > 0: hoteles.append(hotel)\<close>\<close>
  "buscarHotelPorNombre_loop [] hoteles = Inr hoteles"
| "buscarHotelPorNombre_loop (hotel_node # rest) hoteles =
     (case hotel_of_node hotel_node of
        Inl ex \<Rightarrow> Inl ex
      | Inr hotel \<Rightarrow>
          if hId hotel > 0 then buscarHotelPorNombre_loop rest (hoteles @ [hotel])
          else buscarHotelPorNombre_loop rest hoteles)"

definition buscarHotelPorNombre_result :: "xml \<Rightarrow> exn + pyval" where
  "buscarHotelPorNombre_result root =
     (case find_desc (tem ''buscarHotelPorNombreResult'') root of
        None \<Rightarrow>
          Inr (PDict [(''exito'', PBool False), (''hoteles'', PList []),
                      (''mensaje'', PStr (''No se encontraron coincidencias.''))])
      | Some result_node \<Rightarrow>
          (case buscarHotelPorNombre_loop (findall (tem ''Hotel'') result_node) [] of
             Inl ex \<Rightarrow> Inl ex
           | Inr hoteles \<Rightarrow>
               if hoteles = []
               then Inr (PDict [(''exito'', PBool True), (''hoteles'', PList []),
                                (''mensaje'', PStr (''No se encontraron hoteles con ese nombre.''))])
               else Inr (PDict [(''exito'', PBool True),
                                (''hoteles'', PList (map hotel_dict hoteles)),
                                (''mensaje'', PStr (''Hoteles encontrados correctamente.''))])))"

definition buscarHotelPorNombre :: "env \<Rightarrow> scalar \<Rightarrow> pyval \<times> request list" where
  "buscarHotelPorNombre e nombre =
     (if \<not> truthy nombre \<or> \<not> isinstance_str nombre
      then (PDict [(''error'', PStr (''El par'' @ [CHR 0xE1] @ ''metro '' @ [CHR 0x27] @ ''nombre'' @ [CHR 0x27] @ '' es obligatorio y debe ser una cadena de texto.''))], [])
      else
        (let rq = hotel_request ''buscarHotelPorNombre'' (buscarHotelPorNombre_soap_body (py_str nombre))
         in (try_except
               (case post e rq of
                  Inl ex \<Rightarrow> Inl ex
                | Inr response \<Rightarrow>
                    if status_code response \<noteq> 200 then Inr (http_error response)
                    else (case fromstring e (resp_text response) of
                            Inl ex \<Rightarrow> Inl ex
                          | Inr root \<Rightarrow> buscarHotelPorNombre_result root)),
             [rq])))"

definition eliminarHotel_soap_body :: "string \<Rightarrow> string" where
  "eliminarHotel_soap_body hotel_id =
     join_lines
      [''<?xml version=\"1.0\" encoding=\"utf-8\"?>'',
       ''        <soapenv:Envelope xmlns:soapenv=\"http://schemas.xmlsoap.org/soap/envelope/\"'',
       ''                          xmlns:tem=\"http://tempuri.org/\">'',
       ''           <soapenv:Header/>'',
       ''           <soapenv:Body>'',
       ''              <tem:eliminarHotel>'',
       ''                 <tem:id>'' @ hotel_id @ ''</tem:id>'',
       ''              </tem:eliminarHotel>'',
       ''           </soapenv:Body>'',
       ''        </soapenv:Envelope>'']"

definition eliminarHotel_result :: "scalar \<Rightarrow> xml \<Rightarrow> exn + pyval" where
  "eliminarHotel_result hotel_id root =
     (case find_desc (tem ''eliminarHotelResult'') root of
        None \<Rightarrow>
          Inr (PDict [(''exito'', PBool False),
                      (''mensaje'', PStr (''No se pudo determinar si la eliminaci'' @ [CHR 0xF3] @ ''n fue exitosa.''))])
      | Some result_node \<Rightarrow>
          (case text_is_true (elem_text result_node) of
             Inl ex \<Rightarrow> Inl ex
           | Inr resultado \<Rightarrow>
               if resultado
               then Inr (PDict [(''exito'', PBool True),
                                (''mensaje'', PStr (''Hotel con ID='' @ py_str hotel_id @ '' eliminado correctamente.''))])
               else Inr (PDict [(''exito'', PBool False),
                                (''mensaje'', PStr (''No se pudo eliminar el hotel.''))])))"

definition eliminarHotel :: "env \<Rightarrow> scalar \<Rightarrow> pyval \<times> request list" where
  "eliminarHotel e hotel_id =
     (if \<not> isinstance_int hotel_id \<or> int_value hotel_id \<le> 0
      then (PDict [(''error'', PStr (''El par'' @ [CHR 0xE1] @ ''metro '' @ [CHR 0x27] @ ''hotel_id'' @ [CHR 0x27] @ '' debe ser un n'' @ [CHR 0xFA] @ ''mero entero positivo.''))], [])
      else
        (let rq = hotel_request ''eliminarHotel'' (eliminarHotel_soap_body (py_str hotel_id))
         in (try_except
               (case post e rq of
                  Inl ex \<Rightarrow> Inl ex
                | Inr response \<Rightarrow>
                    if status_code response \<noteq> 200 then Inr (http_error response)
                    else (case fromstring e (resp_text response) of
                            Inl ex \<Rightarrow> Inl ex
                          | Inr root \<Rightarrow> eliminarHotel_result hotel_id root)),
             [rq])))"

definition seleccionarHotelPorId_soap_body :: "string \<Rightarrow> string" where
  "seleccionarHotelPorId_soap_body hotel_id =
     join_lines
      [''<?xml version=\"1.0\" encoding=\"utf-8\"?>'',
       ''        <soapenv:Envelope xmlns:soapenv=\"http://schemas.xmlsoap.org/soap/envelope/\"'',
       ''                          xmlns:tem=\"http://tempuri.org/\">'',
       ''           <soapenv:Header/>'',
       ''           <soapenv:Body>'',
       ''              <tem:seleccionarHotelPorId>'',
       ''                 <tem:id>'' @ hotel_id @ ''</tem:id>'',
       ''              </tem:seleccionarHotelPorId>'',
       ''           </soapenv:Body>'',
       ''        </soapenv:Envelope>'']"

definition seleccionarHotelPorId_result :: "xml \<Rightarrow> exn + pyval" where
  "seleccionarHotelPorId_result root =
     (case find_desc (tem ''seleccionarHotelPorIdResult'') root of
        None \<Rightarrow>
          Inr (PDict [(''exito'', PBool False), (''hotel'', PNone),
                      (''mensaje'', PStr (''No se encontr'' @ [CHR 0xF3] @ '' informaci'' @ [CHR 0xF3] @ ''n del hotel.''))])
      | Some result_node \<Rightarrow>
          (case hotel_of_node result_node of
             Inl ex \<Rightarrow> Inl ex
           | Inr hotel \<Rightarrow>
               Inr (PDict [(''exito'', PBool True), (''hotel'', hotel_dict hotel),
                           (''mensaje'', PStr (''Hotel obtenido correctamente.''))])))"

definition seleccionarHotelPorId :: "env \<Rightarrow> scalar \<Rightarrow> pyval \<times> request list" where
  "seleccionarHotelPorId e hotel_id =
     (if \<not> isinstance_int hotel_id \<or> int_value hotel_id \<le> 0
      then (PDict [(''error'', PStr (''El par'' @ [CHR 0xE1] @ ''metro '' @ [CHR 0x27] @ ''hotel_id'' @ [CHR 0x27] @ '' debe ser un n'' @ [CHR 0xFA] @ ''mero entero positivo.''))], [])
      else
        (let rq = hotel_request ''seleccionarHotelPorId'' (seleccionarHotelPorId_soap_body (py_str hotel_id))
         in (try_except
               (case post e rq of
                  Inl ex \<Rightarrow> Inl ex
                | Inr response \<Rightarrow>
                    if status_code response \<noteq> 200 then Inr (http_error response)
                    else (case fromstring e (resp_text response) of
                            Inl ex \<Rightarrow> Inl ex
                          | Inr root \<Rightarrow> seleccionarHotelPorId_result root)),
             [rq])))"

definition seleccionarHoteles_soap_body :: "string" where
  "seleccionarHoteles_soap_body =
     join_lines
      [''<?xml version=\"1.0\" encoding=\"utf-8\"?>'',
       ''        <soapenv:Envelope xmlns:soapenv=\"http://schemas.xmlsoap.org/soap/envelope/\"'',
       ''                          xmlns:tem=\"http://tempuri.org/\">'',
       ''           <soapenv:Header/>'',
       ''           <soapenv:Body>'',
       ''              <tem:seleccionarHoteles/>'',
       ''           </soapenv:Body>'',
       ''        </soapenv:Envelope>'']"

fun seleccionarHoteles_loop :: "xml list \<Rightarrow> hotel_rec list \<Rightarrow> hotel_rec list" where
  \<comment> \<open>\<open>for hotel_node in ...: try: hotel = {...}; hoteles.append(hotel)
      except Exception as parse_err: logger.warning(...)\<close>\<close>
  "seleccionarHoteles_loop [] hoteles = hoteles"
| "seleccionarHoteles_loop (hotel_node # rest) hoteles =
     (case hotel_of_node hotel_node of
        Inl parse_err \<Rightarrow> seleccionarHoteles_loop rest hoteles
      | Inr hotel \<Rightarrow> seleccionarHoteles_loop rest (hoteles @ [hotel]))"

definition seleccionarHoteles_result :: "xml \<Rightarrow> exn + pyval" where
  "seleccionarHoteles_result root =
     (case find_desc (tem ''seleccionarHotelesResult'') root of
        None \<Rightarrow>
          Inr (PDict [(''exito'', PBool False), (''hoteles'', PList []),
                      (''mensaje'', PStr (''No se encontraron hoteles activos.''))])
      | Some result_node \<Rightarrow>
          (let hoteles = seleccionarHoteles_loop (findall (tem ''Hotel'') result_node) []
           in if hoteles = []
              then Inr (PDict [(''exito'', PBool True), (''hoteles'', PList []),
                               (''mensaje'', PStr (''No hay hoteles registrados o activos.''))])
              else Inr (PDict [(''exito'', PBool True),
                               (''hoteles'', PList (map hotel_dict hoteles)),
                               (''mensaje'', PStr (''Hoteles obtenidos correctamente.''))])))"

definition seleccionarHoteles :: "env \<Rightarrow> pyval \<times> request list" where
  "seleccionarHoteles e =
     (let rq = hotel_request ''seleccionarHoteles'' seleccionarHoteles_soap_body
      in (try_except
            (case post e rq of
               Inl ex \<Rightarrow> Inl ex
             | Inr response \<Rightarrow>
                 if status_code response \<noteq> 200 then Inr (http_error response)
                 else (case fromstring e (resp_text response) of
                         Inl ex \<Rightarrow> Inl ex
                       | Inr root \<Rightarrow> seleccionarHoteles_result root)),
          [rq]))"

subsection \<open>wsTipoAlimentacion\<close>

definition SOAP_URL_ALIMENTACION :: string where
  "SOAP_URL_ALIMENTACION =
     ''https://realdecuenca-btccaacvcpgyadhb.canadacentral-01.azurewebsites.net/WS_GestionTipoAlimentacion.asmx''"

definition seleccionarInactivos_soap_body :: "string" where
  "seleccionarInactivos_soap_body =
     join_lines
      [''<?xml version=\"1.0\" encoding=\"utf-8\"?>'',
       ''        <soap:Envelope xmlns:xsi=\"http://www.w3.org/2001/XMLSchema-instance\"'',
       ''                       xmlns:xsd=\"http://www.w3.org/2001/XMLSchema\"'',
       ''                       xmlns:soap=\"http://schemas.xmlsoap.org/soap/envelope/\">'',
       ''          <soap:Body>'',
       ''            <seleccionarInactivos xmlns=\"http://tempuri.org/\" />'',
       ''          </soap:Body>'',
       ''        </soap:Envelope>'']"

definition seleccionarInactivos_request :: request where
  \<comment> \<open>\<open>requests.post(SOAP_URL_ALIMENTACION, data=soap_body.encode("utf-8"), headers=headers,
      timeout=15)\<close>\<close>
  "seleccionarInactivos_request =
     \<lparr>url = SOAP_URL_ALIMENTACION, data = seleccionarInactivos_soap_body,
      headers = [(''Content-Type'', ''text/xml; charset=utf-8''),
                 (''SOAPAction'', ''http://tempuri.org/seleccionarInactivos'')],
      timeout = 15\<rparr>"

definition child_text_or_none :: "string \<Rightarrow> xml \<Rightarrow> pyval" where
  \<comment> \<open>\<open>tipo.find(name, ns).text if tipo.find(name, ns) is not None else None\<close>\<close>
  "child_text_or_none name node =
     (case find_child name node of
        None \<Rightarrow> PNone
      | Some c \<Rightarrow> (case elem_text c of None \<Rightarrow> PNone | Some s \<Rightarrow> PStr s))"

definition tipoData :: "xml \<Rightarrow> pyval" where
  "tipoData tipo =
     PDict [(''id'', child_text_or_none (tem ''Id'') tipo),
            (''nombre'', child_text_or_none (tem ''Nombre'') tipo),
            (''fechaRegistro'', child_text_or_none (tem ''FechaRegistro'') tipo),
            (''ultimaFechaCambio'', child_text_or_none (tem ''UltimaFechaCambio'') tipo),
            (''esActivo'', child_text_or_none (tem ''EsActivo'') tipo)]"

definition seleccionarInactivos :: "env \<Rightarrow> pyval \<times> request list" where
  \<comment> \<open>every handler of this function returns \<open>[]\<close>: the non-200 branch, the inner
      \<open>except ET.ParseError\<close>, \<open>except requests.exceptions.RequestException\<close> and
      \<open>except Exception\<close>\<close>
  "seleccionarInactivos e =
     (let rq = seleccionarInactivos_request
      in ((case post e rq of
             Inl ex \<Rightarrow> PList []
           | Inr response \<Rightarrow>
               if status_code response \<noteq> 200 then PList []
               else (case fromstring e (resp_text response) of
                       Inl ex \<Rightarrow> PList []
                     | Inr root \<Rightarrow>
                         PList (map tipoData (findall_desc (tem ''TipoAlimentacion'') root)))),
          [rq]))"

subsection \<open>wsEspXRes\<close>

definition SOAP_URL_ResXEsp :: string where
  "SOAP_URL_ResXEsp =
     ''https://realdecuenca-btccaacvcpgyadhb.canadacentral-01.azurewebsites.net/WS_GestionResXEsp.asmx''"

definition espacioDisponible_soap_body :: "string \<Rightarrow> string \<Rightarrow> string \<Rightarrow> string" where
  "espacioDisponible_soap_body espacioId fechaInicio fechaFin =
     join_lines
      [''<?xml version=\"1.0\" encoding=\"utf-8\"?>'',
       ''        <soap:Envelope xmlns:xsi=\"http://www.w3.org/2001/XMLSchema-instance\"'',
       ''                       xmlns:xsd=\"http://www.w3.org/2001/XMLSchema\"'',
       ''                       xmlns:soap=\"http://schemas.xmlsoap.org/soap/envelope/\">'',
       ''          <soap:Body>'',
       ''            <espacioDisponible xmlns=\"http://tempuri.org/\">'',
       ''              <espacioId>'' @ espacioId @ ''</espacioId>'',
       ''              <fechaInicio>'' @ fechaInicio @ ''</fechaInicio>'',
       ''              <fechaFin>'' @ fechaFin @ ''</fechaFin>'',
       ''            </espacioDisponible>'',
       ''          </soap:Body>'',
       ''        </soap:Envelope>'']"

definition espacioDisponible_request :: "scalar \<Rightarrow> scalar \<Rightarrow> scalar \<Rightarrow> request" where
  "espacioDisponible_request espacioId fechaInicio fechaFin =
     \<lparr>url = SOAP_URL_ResXEsp,
      data = espacioDisponible_soap_body (py_str espacioId) (py_str fechaInicio) (py_str fechaFin),
      headers = [(''Content-Type'', ''text/xml; charset=utf-8''),
                 (''SOAPAction'', ''http://tempuri.org/espacioDisponible'')],
      timeout = 30\<rparr>"

definition espacioDisponible_result :: "string \<Rightarrow> exn + pyval" where
  \<comment> \<open>the result is cut out of the response text; the text is not parsed\<close>
  "espacioDisponible_result response_text =
     (if \<not> py_contains ''<espacioDisponibleResult>'' response_text
      then Inr (PDict [(''exito'', PBool False), (''disponible'', PNone),
                       (''mensaje'', PStr (''Respuesta inv'' @ [CHR 0xE1] @ ''lida del servicio.''))])
      else
        (case py_index (py_split ''<espacioDisponibleResult>'' response_text) 1 of
           Inl ex \<Rightarrow> Inl ex
         | Inr after_start \<Rightarrow>
             (case py_index (py_split ''</espacioDisponibleResult>'' after_start) 0 of
                Inl ex \<Rightarrow> Inl ex
              | Inr inner \<Rightarrow>
                  (let result_str = py_lower (py_strip inner);
                       disponible = (result_str = ''true'');
                       mensaje = (if disponible
                                  then ''El espacio est'' @ [CHR 0xE1] @ '' disponible para las fechas indicadas.''
                                  else ''El espacio NO est'' @ [CHR 0xE1] @ '' disponible en el rango de fechas especificado.'')
                   in Inr (PDict [(''exito'', PBool True), (''disponible'', PBool disponible),
                                  (''mensaje'', PStr mensaje)])))))"

definition espacioDisponible :: "env \<Rightarrow> scalar \<Rightarrow> scalar \<Rightarrow> scalar \<Rightarrow> pyval \<times> request list" where
  "espacioDisponible e espacioId fechaInicio fechaFin =
     (if \<not> isinstance_int espacioId \<or> int_value espacioId \<le> 0
      then (PDict [(''error'', PStr (''Debe proporcionar un '' @ [CHR 0x27] @ ''espacioId'' @ [CHR 0x27] @ '' v'' @ [CHR 0xE1] @ ''lido (entero mayor que 0).''))], [])
      else if \<not> truthy fechaInicio \<or> \<not> truthy fechaFin
      then (PDict [(''error'', PStr (''Debe proporcionar '' @ [CHR 0x27] @ ''fechaInicio'' @ [CHR 0x27] @ '' y '' @ [CHR 0x27] @ ''fechaFin'' @ [CHR 0x27] @ '' v'' @ [CHR 0xE1] @ ''lidas.''))], [])
      else
        (let rq = espacioDisponible_request espacioId fechaInicio fechaFin
         in (try_except
               (case post e rq of
                  Inl ex \<Rightarrow> Inl ex
                | Inr response \<Rightarrow>
                    if status_code response \<noteq> 200 then Inr (http_error response)
                    else espacioDisponible_result (resp_text response)),
             [rq])))"

subsection \<open>wsReservas and wsPagos\<close>

fun py_int_of :: "scalar \<Rightarrow> exn + int" where
  \<comment> \<open>\<open>int(value)\<close>\<close>
  "py_int_of SNone =
     Inl (TypeError (''int() argument must be a string, a bytes-like object or a real number, not '' @ [CHR 0x27] @ ''NoneType'' @ [CHR 0x27]))"
| "py_int_of (SBool b) = Inr (if b then 1 else 0)"
| "py_int_of (SInt n) = Inr n"
| "py_int_of (SStr s) = py_int s"

definition safe_int_first :: "scalar \<Rightarrow> int \<Rightarrow> int" where
  \<comment> \<open>the first \<open>def safe_int(value, default=0)\<close> of wsReservas, rebound by the next one\<close>
  "safe_int_first v dflt =
     (if v = SNone \<or> py_strip (py_str v) = [] then dflt
      else (case py_int_of v of Inl ex \<Rightarrow> dflt | Inr n \<Rightarrow> n))"

definition safe_int :: "scalar \<Rightarrow> int" where
  \<comment> \<open>\<open>def safe_int(value): try: return int(value) except (ValueError, TypeError): return 0\<close>,
      the binding in force at module level\<close>
  "safe_int v = (case py_int_of v of Inl ex \<Rightarrow> 0 | Inr n \<Rightarrow> n)"

definition safe_bool :: "scalar \<Rightarrow> bool" where
  \<comment> \<open>\<open>str(value).strip().lower() == "true"\<close>\<close>
  "safe_bool v = (py_lower (py_strip (py_str v)) = ''true'')"

definition bool_str :: "scalar \<Rightarrow> string" where
  \<comment> \<open>wsReservas, local to \<open>insertarReserva\<close>: \<open>"true" if valor else "false"\<close>\<close>
  "bool_str valor = (if truthy valor then ''true'' else ''false'')"

definition bool_str_pagos :: "scalar \<Rightarrow> string" where
  \<comment> \<open>wsPagos \<open>_bool_str\<close>: \<open>"true" if bool(v) else "false"\<close>\<close>
  "bool_str_pagos v = (if truthy v then ''true'' else ''false'')"

definition SOAP_URL_Reservas :: string where
  "SOAP_URL_Reservas =
     ''https://realdecuenca-btccaacvcpgyadhb.canadacentral-01.azurewebsites.net/WS_GestionReservas.asmx''"

definition eliminarReserva_soap_body :: "string \<Rightarrow> string" where
  "eliminarReserva_soap_body reserva_id =
     join_lines
      [''<?xml version=\"1.0\" encoding=\"utf-8\"?>'',
       ''        <soapenv:Envelope xmlns:soapenv=\"http://schemas.xmlsoap.org/soap/envelope/\"'',
       ''                          xmlns:tem=\"http://tempuri.org/\">'',
       ''           <soapenv:Header/>'',
       ''           <soapenv:Body>'',
       ''              <tem:eliminarReserva>'',
       ''                 <tem:id>'' @ reserva_id @ ''</tem:id>'',
       ''              </tem:eliminarReserva>'',
       ''           </soapenv:Body>'',
       ''        </soapenv:Envelope>'']"

definition eliminarReserva_request :: "scalar \<Rightarrow> request" where
  "eliminarReserva_request reserva_id =
     \<lparr>url = SOAP_URL_Reservas, data = eliminarReserva_soap_body (py_str reserva_id),
      headers = [(''Content-Type'', ''text/xml; charset=utf-8''),
                 (''SOAPAction'', ''http://tempuri.org/eliminarReserva'')],
      timeout = 30\<rparr>"

definition eliminarReserva_result :: "scalar \<Rightarrow> xml \<Rightarrow> exn + pyval" where
  "eliminarReserva_result reserva_id root =
     (case find_desc (tem ''eliminarReservaResult'') root of
        None \<Rightarrow>
          Inr (PDict [(''eliminado'', PBool False),
                      (''mensaje'', PStr (''No se pudo confirmar la eliminaci'' @ [CHR 0xF3] @ ''n de la reserva.''))])
      | Some result_node \<Rightarrow>
          (case text_is_true (elem_text result_node) of
             Inl ex \<Rightarrow> Inl ex
           | Inr eliminado \<Rightarrow>
               if eliminado
               then Inr (PDict [(''eliminado'', PBool True),
                                (''mensaje'', PStr (''Reserva ID='' @ py_str reserva_id @ '' eliminada correctamente.''))])
               else Inr (PDict [(''eliminado'', PBool False),
                                (''mensaje'', PStr (''No se pudo eliminar la reserva ID='' @ py_str reserva_id @ ''.''))])))"

definition eliminarReserva :: "env \<Rightarrow> scalar \<Rightarrow> pyval \<times> request list" where
  \<comment> \<open>no check of \<open>reserva_id\<close> comes before the request\<close>
  "eliminarReserva e reserva_id =
     (let rq = eliminarReserva_request reserva_id
      in (try_except
            (case post e rq of
               Inl ex \<Rightarrow> Inl ex
             | Inr response \<Rightarrow>
                 if status_code response \<noteq> 200 then Inr (http_error response)
                 else (case fromstring e (resp_text response) of
                         Inl ex \<Rightarrow> Inl ex
                       | Inr root \<Rightarrow> eliminarReserva_result reserva_id root)),
          [rq]))"

definition bool_to_str :: "scalar \<Rightarrow> string" where
  \<comment> \<open>wsPagos, local to \<open>insertarPago\<close>: \<open>"true" if val else "false"\<close>\<close>
  "bool_to_str val = (if truthy val then ''true'' else ''false'')"

definition fmt_fecha :: "env \<Rightarrow> nat \<Rightarrow> scalar option \<Rightarrow> string \<times> nat" where
  \<comment> \<open>\<open>fmt_fecha(nuevo_pago.get(key))\<close> as the f-string shows it, with the number of clock
      readings made so far: \<open>if not valor: return datetime.now().strftime(...)\<close>, else the
      value itself\<close>
  "fmt_fecha e k valor =
     (case valor of
        None \<Rightarrow> (now_strftime e k, Suc k)
      | Some v \<Rightarrow> if \<not> truthy v then (now_strftime e k, Suc k) else (py_str v, k))"

definition SOAP_URL_Pagos :: string where
  "SOAP_URL_Pagos =
     ''https://realdecuenca-btccaacvcpgyadhb.canadacentral-01.azurewebsites.net/WS_GestionPagos.asmx''"

type_synonym field_text = string

definition insertarPago_soap_body ::
  "field_text \<Rightarrow> field_text \<Rightarrow> field_text \<Rightarrow> field_text \<Rightarrow> field_text \<Rightarrow> field_text
   \<Rightarrow> field_text \<Rightarrow> field_text \<Rightarrow> field_text \<Rightarrow> field_text \<Rightarrow> string" where
  \<comment> \<open>the envelope, for the texts that the f-string fields insert\<close>
  "insertarPago_soap_body reserva_id monto numero_de_cedula estado transaccion_referencia fuente fecha_pago fecha_registro ultima_fecha_cambio es_activo =
     join_lines
      [''<?xml version=\"1.0\" encoding=\"utf-8\"?>'',
       ''        <soapenv:Envelope xmlns:soapenv=\"http://schemas.xmlsoap.org/soap/envelope/\"'',
       ''                          xmlns:tem=\"http://tempuri.org/\">'',
       ''           <soapenv:Header/>'',
       ''           <soapenv:Body>'',
       ''              <tem:insertarPago>'',
       ''                 <tem:nuevoPago>'',
       ''                    <tem:Id>0</tem:Id>'',
       ''                    <tem:ReservaId>'' @ reserva_id @ ''</tem:ReservaId>'',
       ''                    <tem:Monto>'' @ monto @ ''</tem:Monto>'',
       ''                    <tem:NumeroDeCedula>'' @ numero_de_cedula @ ''</tem:NumeroDeCedula>'',
       ''                    <tem:Estado>'' @ estado @ ''</tem:Estado>'',
       ''                    <tem:TransaccionReferencia>'' @ transaccion_referencia @ ''</tem:TransaccionReferencia>'',
       ''                    <tem:Fuente>'' @ fuente @ ''</tem:Fuente>'',
       ''                    <tem:FechaPago>'' @ fecha_pago @ ''</tem:FechaPago>'',
       ''                    <tem:FechaRegistro>'' @ fecha_registro @ ''</tem:FechaRegistro>'',
       ''                    <tem:UltimaFechaCambio>'' @ ultima_fecha_cambio @ ''</tem:UltimaFechaCambio>'',
       ''                    <tem:EsActivo>'' @ es_activo @ ''</tem:EsActivo>'',
       ''                 </tem:nuevoPago>'',
       ''              </tem:insertarPago>'',
       ''           </soapenv:Body>'',
       ''        </soapenv:Envelope>'']"

definition insertarPago_request :: "env \<Rightarrow> (string \<rightharpoonup> scalar) \<Rightarrow> request" where
  \<comment> \<open>the \<open>Id\<close> element of the envelope is the constant 0; the record's own \<open>Id\<close> is not read\<close>
  "insertarPago_request e nuevo_pago =
     (let (fecha_pago, k1) = fmt_fecha e 0 (nuevo_pago ''FechaPago'');
          (fecha_registro, k2) = fmt_fecha e k1 (nuevo_pago ''FechaRegistro'');
          (ultima_fecha_cambio, k3) = fmt_fecha e k2 (nuevo_pago ''UltimaFechaCambio'')
      in \<lparr>url = SOAP_URL_Pagos,
          data = insertarPago_soap_body
                   (py_str (dict_get nuevo_pago ''ReservaId'' (SInt 0)))
                   (py_str (dict_get nuevo_pago ''Monto'' (SInt 0)))
                   (py_str (dict_get nuevo_pago ''NumeroDeCedula'' (SStr [])))
                   (py_str (dict_get nuevo_pago ''Estado'' (SStr [])))
                   (py_str (dict_get nuevo_pago ''TransaccionReferencia'' (SStr [])))
                   (py_str (dict_get nuevo_pago ''Fuente'' (SStr [])))
                   fecha_pago fecha_registro ultima_fecha_cambio
                   (bool_to_str (dict_get nuevo_pago ''EsActivo'' (SBool True))),
          headers = [(''Content-Type'', ''text/xml; charset=utf-8''),
                     (''SOAPAction'', ''http://tempuri.org/insertarPago'')],
          timeout = 30\<rparr>)"

definition insertarPago_result :: "xml \<Rightarrow> exn + pyval" where
  "insertarPago_result root =
     (case find_desc (tem ''insertarPagoResult'') root of
        None \<Rightarrow>
          Inr (PDict [(''pago_id'', PNone),
                      (''mensaje'', PStr (''No se recibi'' @ [CHR 0xF3] @ '' confirmaci'' @ [CHR 0xF3] @ ''n de inserci'' @ [CHR 0xF3] @ ''n.''))])
      | Some result_node \<Rightarrow>
          (let pago_id =
                 (case elem_text result_node of
                    None \<Rightarrow> None
                  | Some s \<Rightarrow> (case py_int (py_strip s) of Inl ex \<Rightarrow> None | Inr n \<Rightarrow> Some n))
           in case pago_id of
                None \<Rightarrow>
                  Inr (PDict [(''pago_id'', PNone),
                              (''mensaje'', PStr (''No se pudo insertar el pago o no se devolvi'' @ [CHR 0xF3] @ '' un ID v'' @ [CHR 0xE1] @ ''lido.''))])
              | Some n \<Rightarrow>
                  if n \<noteq> 0 \<and> 0 < n
                  then Inr (PDict [(''pago_id'', PInt n),
                                   (''mensaje'', PStr (''Pago insertado correctamente con ID='' @ str_int n))])
                  else Inr (PDict [(''pago_id'', PNone),
                                   (''mensaje'', PStr (''No se pudo insertar el pago o no se devolvi'' @ [CHR 0xF3] @ '' un ID v'' @ [CHR 0xE1] @ ''lido.''))])))"

definition insertarPago :: "env \<Rightarrow> (string \<rightharpoonup> scalar) \<Rightarrow> pyval \<times> request list" where
  "insertarPago e nuevo_pago =
     (let rq = insertarPago_request e nuevo_pago
      in (try_except
            (case post e rq of
               Inl ex \<Rightarrow> Inl ex
             | Inr response \<Rightarrow>
                 if status_code response \<noteq> 200 then Inr (http_error response)
                 else (case fromstring e (resp_text response) of
                         Inl ex \<Rightarrow> Inl ex
                       | Inr root \<Rightarrow> insertarPago_result root)),
          [rq]))"

subsection \<open>wsUsuarios\<close>

definition SOAP_URL_Usuarios :: string where
  "SOAP_URL_Usuarios =
     ''https://realdecuenca-btccaacvcpgyadhb.canadacentral-01.azurewebsites.net/WS_GestionUsuarios.asmx''"

definition eliminarUsuario_soap_body :: "string \<Rightarrow> string" where
  "eliminarUsuario_soap_body usuario_id =
     join_lines
      [''<?xml version=\"1.0\" encoding=\"utf-8\"?>'',
       ''        <soap:Envelope xmlns:xsi=\"http://www.w3.org/2001/XMLSchema-instance\"'',
       ''                       xmlns:xsd=\"http://www.w3.org/2001/XMLSchema\"'',
       ''                       xmlns:soap=\"http://schemas.xmlsoap.org/soap/envelope/\">'',
       ''          <soap:Body>'',
       ''            <eliminarUsuario xmlns=\"http://tempuri.org/\">'',
       ''              <id>'' @ usuario_id @ ''</id>'',
       ''            </eliminarUsuario>'',
       ''          </soap:Body>'',
       ''        </soap:Envelope>'']"

definition eliminarUsuario_request :: "scalar \<Rightarrow> request" where
  "eliminarUsuario_request usuario_id =
     \<lparr>url = SOAP_URL_Usuarios, data = eliminarUsuario_soap_body (py_str usuario_id),
      headers = [(''Content-Type'', ''text/xml; charset=utf-8''),
                 (''SOAPAction'', ''http://tempuri.org/eliminarUsuario'')],
      timeout = 30\<rparr>"

definition eliminarUsuario_result :: "xml \<Rightarrow> exn + pyval" where
  \<comment> \<open>an absent result node is answered with the \<open>error\<close> key\<close>
  "eliminarUsuario_result root =
     (case find_desc (tem ''eliminarUsuarioResult'') root of
        None \<Rightarrow>
          Inr (PDict [(''error'', PStr (''Respuesta SOAP inv'' @ [CHR 0xE1] @ ''lida o sin nodo eliminarUsuarioResult.''))])
      | Some result_node \<Rightarrow>
          (case text_is_true (elem_text result_node) of
             Inl ex \<Rightarrow> Inl ex
           | Inr eliminado \<Rightarrow>
               Inr (PDict [(''eliminado'', PBool eliminado),
                           (''mensaje'', PStr (if eliminado then ''Usuario desactivado correctamente''
                                               else ''No se pudo desactivar el usuario''))])))"

definition eliminarUsuario :: "env \<Rightarrow> scalar \<Rightarrow> pyval \<times> request list" where
  "eliminarUsuario e usuario_id =
     (let rq = eliminarUsuario_request usuario_id
      in (try_except
            (case post e rq of
               Inl ex \<Rightarrow> Inl ex
             | Inr response \<Rightarrow>
                 if status_code response \<noteq> 200 then Inr (http_error response)
                 else (case fromstring e (resp_text response) of
                         Inl ex \<Rightarrow> Inl ex
                       | Inr root \<Rightarrow> eliminarUsuario_result root)),
          [rq]))"

subsection \<open>wsIntegracionDetalleServicios\<close>

definition safe_bool_integracion :: "scalar \<Rightarrow> bool" where
  \<comment> \<open>the \<open>safe_bool\<close> local to \<open>cotizarReserva\<close> and to \<open>buscarServicios\<close>:
      \<open>str(value).strip().lower() in ("true", "1", "yes")\<close>\<close>
  "safe_bool_integracion v =
     (let t = py_lower (py_strip (py_str v)) in t = ''true'' \<or> t = ''1'' \<or> t = ''yes'')"

definition cotizarReserva_get_text :: "xml \<Rightarrow> string \<Rightarrow> string \<Rightarrow> string" where
  \<comment> \<open>\<open>text = result_node.findtext(f"t:{tag}", default, ns);
      return text.strip() if text else default\<close>\<close>
  "cotizarReserva_get_text result_node name dflt =
     (let t = findtext (tem name) dflt result_node in if t \<noteq> [] then py_strip t else dflt)"

definition cotizarReserva_BreakfastIncluded :: "xml \<Rightarrow> bool" where
  \<comment> \<open>\<open>"BreakfastIncluded": safe_bool(get_text("BreakfastIncluded"))\<close>\<close>
  "cotizarReserva_BreakfastIncluded result_node =
     safe_bool_integracion (SStr (cotizarReserva_get_text result_node ''BreakfastIncluded'' []))"

definition buscarServicios_get_text :: "xml \<Rightarrow> string \<Rightarrow> string \<Rightarrow> string" where
  \<comment> \<open>\<open>el = node.find(f"t:{tag}", ns); if el is not None and el.text: return el.text.strip();
      return default\<close>\<close>
  "buscarServicios_get_text node name dflt =
     (case find_child (tem name) node of
        None \<Rightarrow> dflt
      | Some el \<Rightarrow>
          (case elem_text el of
             None \<Rightarrow> dflt
           | Some s \<Rightarrow> if s \<noteq> [] then py_strip s else dflt))"

definition buscarServicios_EsActivo :: "xml \<Rightarrow> bool" where
  \<comment> \<open>\<open>"EsActivo": safe_bool(get_text(e, "EsActivo"))\<close>\<close>
  "buscarServicios_EsActivo e =
     safe_bool_integracion (SStr (buscarServicios_get_text e ''EsActivo'' []))"

subsection \<open>The comparison the specification names\<close>

text \<open>
  The specification decides booleans by "case-insensitive text equality to \<open>"true"\<close>". The
  next two definitions follow those words, without \<open>str.lower\<close>: two characters are the same
  up to case when they are equal or are the capital and the small form of one of the
  letters A to Z.
\<close>

definition spec_same_letter :: "char \<Rightarrow> char \<Rightarrow> bool" where
  "spec_same_letter x y =
     (x = y
      \<or> (65 \<le> (of_char x :: nat) \<and> (of_char x :: nat) \<le> 90 \<and> (of_char y :: nat) = of_char x + 32)
      \<or> (65 \<le> (of_char y :: nat) \<and> (of_char y :: nat) \<le> 90 \<and> (of_char x :: nat) = of_char y + 32))"

definition spec_equals_ignoring_case :: "string \<Rightarrow> string \<Rightarrow> bool" where
  "spec_equals_ignoring_case a b = list_all2 spec_same_letter a b"

section \<open>Sample inputs\<close>

definition sample_hotel :: "string \<rightharpoonup> scalar" where
  \<comment> \<open>the dictionary of the docstring of \<open>actualizarHotel\<close>\<close>
  "sample_hotel =
     [''Id'' \<mapsto> SInt 5, ''Nombre'' \<mapsto> SStr ''Hotel Real de Cuenca'',
      ''FechaRegistro'' \<mapsto> SStr ''2023-10-28T10:00:00'',
      ''UltimaFechaCambio'' \<mapsto> SStr ''2025-10-28T12:00:00'',
      ''EsActivo'' \<mapsto> SBool True]"

definition unavailable :: response where
  "unavailable = \<lparr>status_code = 503, resp_text = ''Service Unavailable''\<rparr>"

definition env_unavailable :: env where
  \<comment> \<open>the service answers 503 to every request\<close>
  "env_unavailable =
     \<lparr>post = (\<lambda>rq. Inr unavailable),
      fromstring = (\<lambda>s. Inl (ParseError ''syntax error: line 1, column 0'')),
      now_isoformat = (\<lambda>k. ''2025-10-28T12:00:00.000000''),
      now_strftime = (\<lambda>k. ''2025-10-28T12:00:00'')\<rparr>"



definition env_answering :: "string \<Rightarrow> xml \<Rightarrow> env" where
  \<comment> \<open>the service answers 200 with the given text, which parses to the given tree\<close>
  "env_answering t x =
     \<lparr>post = (\<lambda>rq. Inr \<lparr>status_code = 200, resp_text = t\<rparr>),
      fromstring = (\<lambda>s. if s = t then Inr x else Inl (ParseError ''syntax error: line 1, column 0'')),
      now_isoformat = (\<lambda>k. ''2025-10-28T12:00:00.000000''),
      now_strftime = (\<lambda>k. ''2025-10-28T12:00:00'')\<rparr>"



definition leaf :: "string \<Rightarrow> string \<Rightarrow> xml" where
  "leaf name t = Element (tem name) (Some t) []"

definition hotel_node :: "string \<Rightarrow> string \<Rightarrow> string \<Rightarrow> xml" where
  \<comment> \<open>\<open><Hotel><Id>i</Id><Nombre>n</Nombre><EsActivo>a</EsActivo></Hotel>\<close>\<close>
  "hotel_node i n a = Element (tem ''Hotel'') None [leaf ''Id'' i, leaf ''Nombre'' n, leaf ''EsActivo'' a]"

definition answer :: "xml \<Rightarrow> xml" where
  \<comment> \<open>\<open><r xmlns="http://tempuri.org/">...</r>\<close> around a result element\<close>
  "answer result = Element (tem ''r'') None [result]"

definition one_hotel_id0_text :: string where
  "one_hotel_id0_text =
     ''<r xmlns=\"http://tempuri.org/\"><buscarHotelPorNombreResult><Hotel><Id>0</Id>''
     @ ''<Nombre>Real</Nombre><EsActivo>true</EsActivo></Hotel></buscarHotelPorNombreResult></r>''"

definition one_hotel_id0 :: xml where
  "one_hotel_id0 =
     answer (Element (tem ''buscarHotelPorNombreResult'') None [hotel_node ''0'' ''Real'' ''true''])"

definition one_hotel_no_id_text :: string where
  "one_hotel_no_id_text =
     ''<r xmlns=\"http://tempuri.org/\"><buscarHotelPorNombreResult><Hotel><Id/>''
     @ ''<Nombre>Real</Nombre><EsActivo>true</EsActivo></Hotel></buscarHotelPorNombreResult></r>''"

definition one_hotel_no_id :: xml where
  "one_hotel_no_id =
     answer (Element (tem ''buscarHotelPorNombreResult'') None
               [Element (tem ''Hotel'') None
                  [Element (tem ''Id'') None [], leaf ''Nombre'' ''Real'', leaf ''EsActivo'' ''true'']])"

definition three_hoteles_text :: string where
  "three_hoteles_text =
     ''<r xmlns=\"http://tempuri.org/\"><seleccionarHotelesResult>''
     @ ''<Hotel><Id>1</Id><Nombre>A</Nombre><EsActivo>true</EsActivo></Hotel>''
     @ ''<Hotel><Id>2</Id><Nombre>B</Nombre><EsActivo>false</EsActivo></Hotel>''
     @ ''<Hotel><Id>3</Id><Nombre>C</Nombre><EsActivo>true</EsActivo></Hotel>''
     @ ''</seleccionarHotelesResult></r>''"

definition three_hotel_nodes :: "xml list" where
  "three_hotel_nodes =
     [hotel_node ''1'' ''A'' ''true'', hotel_node ''2'' ''B'' ''false'', hotel_node ''3'' ''C'' ''true'']"

definition three_hoteles :: xml where
  "three_hoteles = answer (Element (tem ''seleccionarHotelesResult'') None three_hotel_nodes)"

definition three_hotel_recs :: "hotel_rec list" where
  "three_hotel_recs =
     [\<lparr>hId = 1, hNombre = ''A'', hFechaRegistro = [], hUltimaFechaCambio = [], hEsActivo = True\<rparr>,
      \<lparr>hId = 2, hNombre = ''B'', hFechaRegistro = [], hUltimaFechaCambio = [], hEsActivo = False\<rparr>,
      \<lparr>hId = 3, hNombre = ''C'', hFechaRegistro = [], hUltimaFechaCambio = [], hEsActivo = True\<rparr>]"



definition found_text :: string where
  "found_text =
     ''<r xmlns=\"http://tempuri.org/\"><buscarHotelPorNombreResult>''
     @ ''<Hotel><Id>7</Id><Nombre>Real</Nombre><EsActivo>false</EsActivo></Hotel>''
     @ ''<Hotel><Id>0</Id><Nombre>Real II</Nombre><EsActivo>true</EsActivo></Hotel>''
     @ ''</buscarHotelPorNombreResult></r>''"

definition found_nodes :: "xml list" where
  "found_nodes = [hotel_node ''7'' ''Real'' ''false'', hotel_node ''0'' ''Real II'' ''true'']"

definition found :: xml where
  "found = answer (Element (tem ''buscarHotelPorNombreResult'') None found_nodes)"

definition found_recs :: "hotel_rec list" where
  "found_recs =
     [\<lparr>hId = 7, hNombre = ''Real'', hFechaRegistro = [], hUltimaFechaCambio = [], hEsActivo = False\<rparr>,
      \<lparr>hId = 0, hNombre = ''Real II'', hFechaRegistro = [], hUltimaFechaCambio = [], hEsActivo = True\<rparr>]"

definition bare_hotel :: xml where
  \<comment> \<open>\<open><Hotel><Nombre/><EsActivo/></Hotel>\<close>: no \<open>Id\<close>, no dates, two empty elements\<close>
  "bare_hotel =
     Element (tem ''Hotel'') None [Element (tem ''Nombre'') None [], Element (tem ''EsActivo'') None []]"

definition mixed_hoteles_text :: string where
  "mixed_hoteles_text =
     ''<r xmlns=\"http://tempuri.org/\"><seleccionarHotelesResult>''
     @ ''<Hotel><Id>abc</Id><Nombre>X</Nombre><EsActivo>true</EsActivo></Hotel>''
     @ ''<Hotel><Id>2</Id><Nombre>B</Nombre><EsActivo>false</EsActivo></Hotel>''
     @ ''</seleccionarHotelesResult></r>''"

definition mixed_hoteles_result :: xml where
  "mixed_hoteles_result =
     Element (tem ''seleccionarHotelesResult'') None
       [hotel_node ''abc'' ''X'' ''true'', hotel_node ''2'' ''B'' ''false'']"

definition mixed_hoteles :: xml where
  "mixed_hoteles = answer mixed_hoteles_result"

definition por_id_bad_text :: string where
  "por_id_bad_text =
     ''<r xmlns=\"http://tempuri.org/\"><seleccionarHotelPorIdResult><Id>12a</Id>''
     @ ''<Nombre>Real</Nombre><EsActivo>true</EsActivo></seleccionarHotelPorIdResult></r>''"

definition por_id_bad_result :: xml where
  "por_id_bad_result =
     Element (tem ''seleccionarHotelPorIdResult'') None
       [leaf ''Id'' ''12a'', leaf ''Nombre'' ''Real'', leaf ''EsActivo'' ''true'']"

definition por_id_bad :: xml where
  "por_id_bad = answer por_id_bad_result"





definition sample_pago :: "string \<rightharpoonup> scalar" where
  \<comment> \<open>the dictionary of the docstring of \<open>insertarPago\<close>, without its \<open>Monto\<close>, and with an
      \<open>Id\<close> of its own\<close>
  "sample_pago =
     [''Id'' \<mapsto> SInt 7, ''ReservaId'' \<mapsto> SInt 1, ''NumeroDeCedula'' \<mapsto> SStr ''1712345678'',
      ''Estado'' \<mapsto> SStr ''Pagado'', ''TransaccionReferencia'' \<mapsto> SStr ''PAY-2025-0001'',
      ''Fuente'' \<mapsto> SStr ''TarjetaCredito'', ''FechaPago'' \<mapsto> SStr ''2025-10-28T14:30:00'',
      ''FechaRegistro'' \<mapsto> SStr ''2025-10-28T14:30:00'',
      ''UltimaFechaCambio'' \<mapsto> SStr ''2025-10-28T14:30:00'', ''EsActivo'' \<mapsto> SBool True]"

section \<open>Properties of the adapters\<close>



subsection \<open>Non-200 responses\<close>




subsection \<open>Transport failures\<close>




subsection \<open>Timeouts\<close>




subsection \<open>Validation of the entity id\<close>




subsection \<open>No exception leaves an adapter\<close>





















subsection \<open>Lists of records\<close>

lemma seleccionarHoteles_loop_all:
  "map hotel_of_node nodes = map Inr hs \<Longrightarrow> seleccionarHoteles_loop nodes acc = acc @ hs"
proof (induction nodes arbitrary: acc hs)
  case Nil
  then show ?case by simp
next
  case (Cons n nodes)
  then obtain h hs' where hs: "hs = h # hs'" "hotel_of_node n = Inr h"
    "map hotel_of_node nodes = map Inr hs'"
    by (cases hs) auto
  with Cons.IH [of hs' "acc @ [h]"] show ?case by simp
qed

lemma buscarHotelPorNombre_loop_all:
  "map hotel_of_node nodes = map Inr hs \<Longrightarrow>
   buscarHotelPorNombre_loop nodes acc = Inr (acc @ filter (\<lambda>h. 0 < hId h) hs)"
proof (induction nodes arbitrary: acc hs)
  case Nil
  then show ?case by simp
next
  case (Cons n nodes)
  then obtain h hs' where hs: "hs = h # hs'" "hotel_of_node n = Inr h"
    "map hotel_of_node nodes = map Inr hs'"
    by (cases hs) auto
  with Cons.IH [of hs'] show ?case by simp
qed

text \<open>
  Claim C4, as amended. For a 200 answer whose result node has N \<open>Hotel\<close> children that all
  decode, \<open>seleccionarHoteles\<close> returns the N decoded records in document order, whatever
  their \<open>EsActivo\<close> and \<open>Id\<close>; \<open>buscarHotelPorNombre\<close> returns, in document order, those
  of the decoded records whose \<open>Id\<close> is greater than 0.
\<close>

theorem hoteles_decoded_in_order:
  assumes "\<forall>rq. post e rq = Inr r" and "status_code r = 200"
    and "fromstring e (resp_text r) = Inr root"
    and "find_desc (tem ''seleccionarHotelesResult'') root = Some result_node"
    and "map hotel_of_node (findall (tem ''Hotel'') result_node) = map Inr hs"
    and "\<forall>rq. post e' rq = Inr r'" and "status_code r' = 200"
    and "fromstring e' (resp_text r') = Inr root'"
    and "find_desc (tem ''buscarHotelPorNombreResult'') root' = Some result_node'"
    and "map hotel_of_node (findall (tem ''Hotel'') result_node') = map Inr hs'"
    and "truthy nombre" and "isinstance_str nombre"
  shows "length hs = length (findall (tem ''Hotel'') result_node)
       \<and> fst (seleccionarHoteles e)
           = PDict [(''exito'', PBool True), (''hoteles'', PList (map hotel_dict hs)),
                    (''mensaje'', PStr (if hs = [] then ''No hay hoteles registrados o activos.''
                                        else ''Hoteles obtenidos correctamente.''))]
       \<and> fst (buscarHotelPorNombre e' nombre)
           = PDict [(''exito'', PBool True),
                    (''hoteles'', PList (map hotel_dict (filter (\<lambda>h. 0 < hId h) hs'))),
                    (''mensaje'', PStr (if filter (\<lambda>h. 0 < hId h) hs' = []
                                        then ''No se encontraron hoteles con ese nombre.''
                                        else ''Hoteles encontrados correctamente.''))]"
proof -
  have len: "length hs = length (findall (tem ''Hotel'') result_node)"
    using assms(5) by (metis length_map)
  have a: "seleccionarHoteles_result root
             = Inr (PDict [(''exito'', PBool True), (''hoteles'', PList (map hotel_dict hs)),
                      (''mensaje'', PStr (if hs = [] then ''No hay hoteles registrados o activos.''
                                          else ''Hoteles obtenidos correctamente.''))])"
    using assms(4,5) by (simp add: seleccionarHoteles_result_def seleccionarHoteles_loop_all Let_def)
  have b: "buscarHotelPorNombre_result root'
             = Inr (PDict [(''exito'', PBool True),
                      (''hoteles'', PList (map hotel_dict (filter (\<lambda>h. 0 < hId h) hs'))),
                      (''mensaje'', PStr (if filter (\<lambda>h. 0 < hId h) hs' = []
                                          then ''No se encontraron hoteles con ese nombre.''
                                          else ''Hoteles encontrados correctamente.''))])"
    using assms(9,10) by (simp add: buscarHotelPorNombre_result_def buscarHotelPorNombre_loop_all)
  show ?thesis
    using assms(1,2,3,6,7,8,11,12) len a b
    by (simp add: seleccionarHoteles_def buscarHotelPorNombre_def Let_def try_except_def)
qed

lemmas xml_eval = find_desc_def findall_def findall_desc_def find_child_def findtext_def tem_def
  answer_def hotel_node_def leaf_def

lemmas int_eval = py_int_def parse_int_def read_int_def is_int_space_def valid_run_def
  is_digit_def digit_val_def int_max_str_digits_def Let_def

lemma three_decoded: "map hotel_of_node three_hotel_nodes = map Inr three_hotel_recs"
  by (simp add: three_hotel_nodes_def three_hotel_recs_def hotel_of_node_def xml_eval int_eval
        py_lower_def lower_char_def)

lemma found_decoded: "map hotel_of_node found_nodes = map Inr found_recs"
  by (simp add: found_nodes_def found_recs_def hotel_of_node_def xml_eval int_eval
        py_lower_def lower_char_def)

lemma three_result:
  "find_desc (tem ''seleccionarHotelesResult'') three_hoteles
     = Some (Element (tem ''seleccionarHotelesResult'') None three_hotel_nodes)"
  by (simp add: three_hoteles_def find_desc_def answer_def tem_def)

lemma found_result:
  "find_desc (tem ''buscarHotelPorNombreResult'') found
     = Some (Element (tem ''buscarHotelPorNombreResult'') None found_nodes)"
  by (simp add: found_def find_desc_def answer_def tem_def)

lemma three_all: "findall (tem ''Hotel'') (Element t x three_hotel_nodes) = three_hotel_nodes"
  by (simp add: findall_def three_hotel_nodes_def hotel_node_def)

lemma found_all: "findall (tem ''Hotel'') (Element t x found_nodes) = found_nodes"
  by (simp add: findall_def found_nodes_def hotel_node_def)

theorem hoteles_decoded_in_order_witness:
  "fst (seleccionarHoteles (env_answering three_hoteles_text three_hoteles))
     = PDict [(''exito'', PBool True), (''hoteles'', PList (map hotel_dict three_hotel_recs)),
              (''mensaje'', PStr ''Hoteles obtenidos correctamente.'')]
   \<and> fst (buscarHotelPorNombre (env_answering found_text found) (SStr ''Real''))
     = PDict [(''exito'', PBool True), (''hoteles'', PList [hotel_dict (hd found_recs)]),
              (''mensaje'', PStr ''Hoteles encontrados correctamente.'')]"
proof -
  let ?e = "env_answering three_hoteles_text three_hoteles"
  let ?r = "\<lparr>status_code = 200, resp_text = three_hoteles_text\<rparr>"
  let ?e' = "env_answering found_text found"
  let ?r' = "\<lparr>status_code = 200, resp_text = found_text\<rparr>"
  have 1: "\<forall>rq. post ?e rq = Inr ?r" by (simp add: env_answering_def)
  have 2: "status_code ?r = 200" by simp
  have 3: "fromstring ?e (resp_text ?r) = Inr three_hoteles" by (simp add: env_answering_def)
  have 5: "map hotel_of_node (findall (tem ''Hotel'')
             (Element (tem ''seleccionarHotelesResult'') None three_hotel_nodes)) = map Inr three_hotel_recs"
    by (simp only: three_all three_decoded)
  have 6: "\<forall>rq. post ?e' rq = Inr ?r'" by (simp add: env_answering_def)
  have 7: "status_code ?r' = 200" by simp
  have 8: "fromstring ?e' (resp_text ?r') = Inr found" by (simp add: env_answering_def)
  have 10: "map hotel_of_node (findall (tem ''Hotel'')
             (Element (tem ''buscarHotelPorNombreResult'') None found_nodes)) = map Inr found_recs"
    by (simp only: found_all found_decoded)
  have 11: "truthy (SStr ''Real'')" "isinstance_str (SStr ''Real'')" by simp_all
  show ?thesis
    using hoteles_decoded_in_order [OF 1 2 3 three_result 5 6 7 8 found_result 10 11]
    by (simp add: three_hotel_recs_def found_recs_def)
qed

text \<open>
  Claim C4 as stated fails: the answer holds one \<open>Hotel\<close> record, with \<open>Id\<close> 0, and
  \<open>buscarHotelPorNombre\<close> returns no record.
\<close>

theorem buscarHotelPorNombre_drops_id_0:
  "length (findall_desc (tem ''Hotel'') one_hotel_id0) = 1
   \<and> fst (buscarHotelPorNombre (env_answering one_hotel_id0_text one_hotel_id0) (SStr ''Real''))
       = PDict [(''exito'', PBool True), (''hoteles'', PList []),
                (''mensaje'', PStr ''No se encontraron hoteles con ese nombre.'')]"
  by (simp add: buscarHotelPorNombre_def buscarHotelPorNombre_result_def env_answering_def
        one_hotel_id0_def hotel_of_node_def xml_eval int_eval try_except_def Let_def)

subsection \<open>Defaults of the decoded fields\<close>

lemma read_int_value_chars:
  assumes "read_int s = IntValue n" and "c \<in> set s"
  shows "is_digit c \<or> c = CHR ''_'' \<or> c = CHR ''+'' \<or> c = CHR ''-'' \<or> is_int_space c"
proof -
  define t where "t = dropWhile is_int_space s"
  define u where "u = (case t of [] \<Rightarrow> [] | x # cs \<Rightarrow> if x = CHR ''-'' \<or> x = CHR ''+'' then cs else t)"
  define run where "run = takeWhile (\<lambda>c. is_digit c \<or> c = CHR ''_'') u"
  define rest where "rest = dropWhile (\<lambda>c. is_digit c \<or> c = CHR ''_'') u"
  have blanks: "dropWhile is_int_space rest = []"
    using assms(1) unfolding read_int_def Let_def t_def [symmetric] u_def [symmetric]
      rest_def [symmetric] run_def [symmetric]
    by (auto split: if_splits)
  have s: "s = takeWhile is_int_space s @ t"
    by (simp add: t_def)
  have u: "u = run @ rest"
    by (simp add: run_def rest_def)
  from assms(2) s have "c \<in> set (takeWhile is_int_space s) \<or> c \<in> set t"
    by (metis Un_iff set_append)
  then show ?thesis
  proof
    assume "c \<in> set (takeWhile is_int_space s)"
    then show ?thesis by (auto dest: set_takeWhileD)
  next
    assume ct: "c \<in> set t"
    have "c = CHR ''-'' \<or> c = CHR ''+'' \<or> c \<in> set u"
      using ct by (cases t) (auto simp add: u_def)
    moreover have "c \<in> set u \<Longrightarrow> ?thesis"
    proof -
      assume "c \<in> set u"
      with u have "c \<in> set run \<or> c \<in> set rest" by auto
      then show ?thesis
      proof
        assume "c \<in> set run"
        then show ?thesis unfolding run_def by (auto dest: set_takeWhileD)
      next
        assume "c \<in> set rest"
        with blanks show ?thesis by (auto simp add: dropWhile_eq_Nil_conv)
      qed
    qed
    ultimately show ?thesis by blast
  qed
qed

lemma parse_int_other_char:
  assumes "c \<in> set s" and "\<not> is_digit c" and "c \<noteq> CHR ''_''" and "c \<noteq> CHR ''+''"
    and "c \<noteq> CHR ''-''" and "\<not> is_int_space c"
  shows "parse_int s = None"
proof (cases "read_int s")
  case (IntValue n)
  from read_int_value_chars [OF this assms(1)] assms show ?thesis by blast
qed (simp_all add: parse_int_def)

lemma safe_int_str: "safe_int (SStr s) = (case parse_int s of None \<Rightarrow> 0 | Some n \<Rightarrow> n)"
  by (simp add: safe_int_def py_int_def parse_int_def split: int_literal.splits)

lemma parse_int_empty: "parse_int [] = None"
  by (simp add: parse_int_def read_int_def valid_run_def)

lemma py_int_zero: "py_int ''0'' = Inr 0"
  by (simp add: int_eval)

lemma py_int_invalid: "parse_int s = None \<Longrightarrow> \<exists>m. py_int s = Inl (ValueError m)"
  by (simp add: py_int_def parse_int_def split: int_literal.splits)

lemma findtext_absent: "find_child name node = None \<Longrightarrow> findtext name dflt node = dflt"
  by (simp add: findtext_def)

lemma findtext_empty:
  "find_child name node = Some (Element t None cs) \<Longrightarrow> findtext name dflt node = []"
  by (simp add: findtext_def)

lemma hotel_of_node_fields:
  assumes "hotel_of_node node = Inr h"
  shows "hNombre h = findtext (tem ''Nombre'') [] node"
    and "hFechaRegistro h = findtext (tem ''FechaRegistro'') [] node"
    and "hUltimaFechaCambio h = findtext (tem ''UltimaFechaCambio'') [] node"
    and "hEsActivo h = (py_lower (findtext (tem ''EsActivo'') ''false'' node) = ''true'')"
  using assms by (auto simp add: hotel_of_node_def split: sum.splits)

lemma py_lower_false: "py_lower ''false'' = ''false''"
  by code_simp

lemma hotel_of_node_no_id:
  assumes "find_child (tem ''Id'') node = None"
  shows "\<exists>h. hotel_of_node node = Inr h \<and> hId h = 0"
  using assms by (simp add: hotel_of_node_def findtext_absent py_int_zero)

lemma hotel_of_node_bad_id:
  assumes "parse_int (findtext (tem ''Id'') ''0'' node) = None"
  shows "\<exists>m. hotel_of_node node = Inl (ValueError m)"
  using py_int_invalid [OF assms] by (auto simp add: hotel_of_node_def)

lemma buscarHotelPorNombre_loop_fails:
  "node \<in> set nodes \<Longrightarrow> hotel_of_node node = Inl ex \<Longrightarrow>
   \<exists>ex'. buscarHotelPorNombre_loop nodes acc = Inl ex'"
proof (induction nodes arbitrary: acc)
  case Nil
  then show ?case by simp
next
  case (Cons n nodes)
  show ?case
  proof (cases "hotel_of_node n")
    case (Inl a)
    then show ?thesis by simp
  next
    case (Inr h)
    with Cons.prems have "node \<in> set nodes" by auto
    from Cons.IH [OF this Cons.prems(2)] Inr show ?thesis by simp
  qed
qed

lemma seleccionarHoteles_loop_skips:
  "seleccionarHoteles_loop nodes acc
     = acc @ List.map_filter (\<lambda>n. case hotel_of_node n of Inl ex \<Rightarrow> None | Inr h \<Rightarrow> Some h) nodes"
proof (induction nodes arbitrary: acc)
  case Nil
  then show ?case by (simp add: List.map_filter_simps)
next
  case (Cons n nodes)
  then show ?case by (cases "hotel_of_node n") (simp_all add: List.map_filter_simps)
qed

lemma buscarHotelPorNombre_bad_id:
  assumes "\<forall>rq. post e rq = Inr r" and "status_code r = 200"
    and "fromstring e (resp_text r) = Inr root"
    and "find_desc (tem ''buscarHotelPorNombreResult'') root = Some result_node"
    and "node \<in> set (findall (tem ''Hotel'') result_node)"
    and "parse_int (findtext (tem ''Id'') ''0'' node) = None"
    and "truthy nombre" and "isinstance_str nombre"
  shows "is_failure (fst (buscarHotelPorNombre e nombre))"
proof -
  obtain m where "hotel_of_node node = Inl (ValueError m)"
    using hotel_of_node_bad_id [OF assms(6)] by blast
  from buscarHotelPorNombre_loop_fails [OF assms(5) this]
  obtain ex' where "buscarHotelPorNombre_loop (findall (tem ''Hotel'') result_node) [] = Inl ex'"
    by blast
  with assms(4) have "buscarHotelPorNombre_result root = Inl ex'"
    by (simp add: buscarHotelPorNombre_result_def)
  with assms(1,2,3,7,8) show ?thesis
    by (simp add: buscarHotelPorNombre_def Let_def try_except_def error_dict_def is_failure_def)
qed

lemma seleccionarHotelPorId_bad_id:
  assumes "\<forall>rq. post e rq = Inr r" and "status_code r = 200"
    and "fromstring e (resp_text r) = Inr root"
    and "find_desc (tem ''seleccionarHotelPorIdResult'') root = Some node"
    and "parse_int (findtext (tem ''Id'') ''0'' node) = None"
    and "isinstance_int v" and "0 < int_value v"
  shows "is_failure (fst (seleccionarHotelPorId e v))"
proof -
  obtain m where "hotel_of_node node = Inl (ValueError m)"
    using hotel_of_node_bad_id [OF assms(5)] by blast
  with assms(4) have "seleccionarHotelPorId_result root = Inl (ValueError m)"
    by (simp add: seleccionarHotelPorId_result_def)
  with assms(1,2,3,6,7) show ?thesis
    by (simp add: seleccionarHotelPorId_def Let_def try_except_def error_dict_def is_failure_def)
qed

lemma seleccionarHoteles_skips:
  assumes "\<forall>rq. post e rq = Inr r" and "status_code r = 200"
    and "fromstring e (resp_text r) = Inr root"
    and "find_desc (tem ''seleccionarHotelesResult'') root = Some result_node"
  shows "fst (seleccionarHoteles e)
           = PDict [(''exito'', PBool True),
                    (''hoteles'', PList (map hotel_dict
                       (List.map_filter (\<lambda>n. case hotel_of_node n of Inl ex \<Rightarrow> None | Inr h \<Rightarrow> Some h)
                          (findall (tem ''Hotel'') result_node)))),
                    (''mensaje'', PStr (if List.map_filter (\<lambda>n. case hotel_of_node n of Inl ex \<Rightarrow> None | Inr h \<Rightarrow> Some h)
                                              (findall (tem ''Hotel'') result_node) = []
                                        then ''No hay hoteles registrados o activos.''
                                        else ''Hoteles obtenidos correctamente.''))]"
  using assms
  by (simp add: seleccionarHoteles_def seleccionarHoteles_result_def seleccionarHoteles_loop_skips
        Let_def try_except_def)

text \<open>
  Claim C5, as amended. \<open>safe_int\<close> of wsReservas is total: \<open>None\<close>, the empty text and every
  text that \<open>int\<close> does not read give 0, a text that \<open>int\<close> reads gives its value, and \<open>int\<close>
  reads no text that holds a character other than a digit, an underscore, a sign and the
  blanks it skips. In the decoder of wsHotel an absent \<open>Id\<close> gives 0, an absent or empty
  string field gives the empty string and an absent or empty \<open>EsActivo\<close> gives false. An
  \<open>Id\<close> whose text \<open>int\<close> does not read makes the decoder raise \<open>ValueError\<close>: with such a
  record in a 200 answer, \<open>buscarHotelPorNombre\<close> and \<open>seleccionarHotelPorId\<close>, called with
  arguments that pass their checks, return a failure value, and \<open>seleccionarHoteles\<close> leaves
  the record out and returns the records that decode.
\<close>

theorem field_defaults:
  "safe_int SNone = 0
   \<and> safe_int (SStr []) = 0
   \<and> (parse_int s = None \<longrightarrow> safe_int (SStr s) = 0)
   \<and> (parse_int s = Some n \<longrightarrow> safe_int (SStr s) = n)
   \<and> (c \<in> set s \<and> \<not> is_digit c \<and> c \<noteq> CHR ''_'' \<and> c \<noteq> CHR ''+'' \<and> c \<noteq> CHR ''-''
        \<and> \<not> is_int_space c \<longrightarrow> parse_int s = None)
   \<and> (find_child (tem ''Id'') node = None \<longrightarrow> (\<exists>h. hotel_of_node node = Inr h \<and> hId h = 0))
   \<and> (hotel_of_node node = Inr h \<longrightarrow>
        (find_child (tem ''Nombre'') node = None \<or> find_child (tem ''Nombre'') node = Some (Element t None cs)
           \<longrightarrow> hNombre h = [])
      \<and> (find_child (tem ''FechaRegistro'') node = None \<or> find_child (tem ''FechaRegistro'') node = Some (Element t None cs)
           \<longrightarrow> hFechaRegistro h = [])
      \<and> (find_child (tem ''UltimaFechaCambio'') node = None \<or> find_child (tem ''UltimaFechaCambio'') node = Some (Element t None cs)
           \<longrightarrow> hUltimaFechaCambio h = [])
      \<and> (find_child (tem ''EsActivo'') node = None \<or> find_child (tem ''EsActivo'') node = Some (Element t None cs)
           \<longrightarrow> \<not> hEsActivo h))
   \<and> (parse_int (findtext (tem ''Id'') ''0'' node) = None \<longrightarrow>
        (\<exists>m. hotel_of_node node = Inl (ValueError m)))
   \<and> ((\<forall>rq. post e rq = Inr r) \<and> status_code r = 200 \<and> fromstring e (resp_text r) = Inr root
        \<and> find_desc (tem ''buscarHotelPorNombreResult'') root = Some result_node
        \<and> node \<in> set (findall (tem ''Hotel'') result_node)
        \<and> parse_int (findtext (tem ''Id'') ''0'' node) = None
        \<and> truthy nombre \<and> isinstance_str nombre \<longrightarrow>
        is_failure (fst (buscarHotelPorNombre e nombre)))
   \<and> ((\<forall>rq. post e rq = Inr r) \<and> status_code r = 200 \<and> fromstring e (resp_text r) = Inr root
        \<and> find_desc (tem ''seleccionarHotelPorIdResult'') root = Some node
        \<and> parse_int (findtext (tem ''Id'') ''0'' node) = None
        \<and> isinstance_int hotel_id \<and> 0 < int_value hotel_id \<longrightarrow>
        is_failure (fst (seleccionarHotelPorId e hotel_id)))
   \<and> ((\<forall>rq. post e rq = Inr r) \<and> status_code r = 200 \<and> fromstring e (resp_text r) = Inr root
        \<and> find_desc (tem ''seleccionarHotelesResult'') root = Some result_node \<longrightarrow>
        fst (seleccionarHoteles e)
          = PDict [(''exito'', PBool True),
                   (''hoteles'', PList (map hotel_dict
                      (List.map_filter (\<lambda>n. case hotel_of_node n of Inl ex \<Rightarrow> None | Inr h \<Rightarrow> Some h)
                         (findall (tem ''Hotel'') result_node)))),
                   (''mensaje'', PStr (if List.map_filter (\<lambda>n. case hotel_of_node n of Inl ex \<Rightarrow> None | Inr h \<Rightarrow> Some h)
                                             (findall (tem ''Hotel'') result_node) = []
                                       then ''No hay hoteles registrados o activos.''
                                       else ''Hoteles obtenidos correctamente.''))])"
proof -
  have a1: "safe_int SNone = 0"
    by (simp add: safe_int_def)
  have a2: "safe_int (SStr []) = 0"
    by (simp add: safe_int_str parse_int_empty)
  have b1: "parse_int s = None \<longrightarrow> safe_int (SStr s) = 0"
    and b2: "parse_int s = Some n \<longrightarrow> safe_int (SStr s) = n"
    by (simp_all add: safe_int_str)
  have b3: "c \<in> set s \<and> \<not> is_digit c \<and> c \<noteq> CHR ''_'' \<and> c \<noteq> CHR ''+'' \<and> c \<noteq> CHR ''-''
        \<and> \<not> is_int_space c \<longrightarrow> parse_int s = None"
    using parse_int_other_char [of c s] by blast
  have c1: "find_child (tem ''Id'') node = None \<longrightarrow> (\<exists>h. hotel_of_node node = Inr h \<and> hId h = 0)"
    using hotel_of_node_no_id [of node] by blast
  have c2: "hotel_of_node node = Inr h \<longrightarrow>
        (find_child (tem ''Nombre'') node = None \<or> find_child (tem ''Nombre'') node = Some (Element t None cs)
           \<longrightarrow> hNombre h = [])
      \<and> (find_child (tem ''FechaRegistro'') node = None \<or> find_child (tem ''FechaRegistro'') node = Some (Element t None cs)
           \<longrightarrow> hFechaRegistro h = [])
      \<and> (find_child (tem ''UltimaFechaCambio'') node = None \<or> find_child (tem ''UltimaFechaCambio'') node = Some (Element t None cs)
           \<longrightarrow> hUltimaFechaCambio h = [])
      \<and> (find_child (tem ''EsActivo'') node = None \<or> find_child (tem ''EsActivo'') node = Some (Element t None cs)
           \<longrightarrow> \<not> hEsActivo h)"
    by (auto simp add: hotel_of_node_fields findtext_absent findtext_empty py_lower_false
          py_lower_def)
  have c3: "parse_int (findtext (tem ''Id'') ''0'' node) = None \<longrightarrow>
        (\<exists>m. hotel_of_node node = Inl (ValueError m))"
    using hotel_of_node_bad_id [of node] by blast
  have d1: "(\<forall>rq. post e rq = Inr r) \<and> status_code r = 200 \<and> fromstring e (resp_text r) = Inr root
        \<and> find_desc (tem ''buscarHotelPorNombreResult'') root = Some result_node
        \<and> node \<in> set (findall (tem ''Hotel'') result_node)
        \<and> parse_int (findtext (tem ''Id'') ''0'' node) = None
        \<and> truthy nombre \<and> isinstance_str nombre \<longrightarrow>
        is_failure (fst (buscarHotelPorNombre e nombre))"
    using buscarHotelPorNombre_bad_id [of e r root result_node node nombre] by blast
  have d2: "(\<forall>rq. post e rq = Inr r) \<and> status_code r = 200 \<and> fromstring e (resp_text r) = Inr root
        \<and> find_desc (tem ''seleccionarHotelPorIdResult'') root = Some node
        \<and> parse_int (findtext (tem ''Id'') ''0'' node) = None
        \<and> isinstance_int hotel_id \<and> 0 < int_value hotel_id \<longrightarrow>
        is_failure (fst (seleccionarHotelPorId e hotel_id))"
    using seleccionarHotelPorId_bad_id [of e r root node hotel_id] by blast
  have d3: "(\<forall>rq. post e rq = Inr r) \<and> status_code r = 200 \<and> fromstring e (resp_text r) = Inr root
        \<and> find_desc (tem ''seleccionarHotelesResult'') root = Some result_node \<longrightarrow>
        fst (seleccionarHoteles e)
          = PDict [(''exito'', PBool True),
                   (''hoteles'', PList (map hotel_dict
                      (List.map_filter (\<lambda>n. case hotel_of_node n of Inl ex \<Rightarrow> None | Inr h \<Rightarrow> Some h)
                         (findall (tem ''Hotel'') result_node)))),
                   (''mensaje'', PStr (if List.map_filter (\<lambda>n. case hotel_of_node n of Inl ex \<Rightarrow> None | Inr h \<Rightarrow> Some h)
                                             (findall (tem ''Hotel'') result_node) = []
                                       then ''No hay hoteles registrados o activos.''
                                       else ''Hoteles obtenidos correctamente.''))]"
    using seleccionarHoteles_skips [of e r root result_node] by blast
  show ?thesis
    using a1 a2 b1 b2 b3 c1 c2 c3 d1 d2 d3 by (intro conjI) assumption+
qed

theorem field_defaults_witness:
  "safe_int (SStr ''abc'') = 0
   \<and> safe_int (SStr '' 42 '') = 42
   \<and> parse_int ''12a'' = None
   \<and> hotel_of_node bare_hotel
       = Inr \<lparr>hId = 0, hNombre = [], hFechaRegistro = [], hUltimaFechaCambio = [], hEsActivo = False\<rparr>
   \<and> (\<exists>m. hotel_of_node (hotel_node ''abc'' ''X'' ''true'') = Inl (ValueError m))
   \<and> is_failure (fst (buscarHotelPorNombre (env_answering one_hotel_no_id_text one_hotel_no_id) (SStr ''Hotel'')))
   \<and> is_failure (fst (seleccionarHotelPorId (env_answering por_id_bad_text por_id_bad) (SInt 7)))
   \<and> fst (seleccionarHoteles (env_answering mixed_hoteles_text mixed_hoteles))
       = PDict [(''exito'', PBool True),
                (''hoteles'', PList [hotel_dict \<lparr>hId = 2, hNombre = ''B'', hFechaRegistro = [],
                                                 hUltimaFechaCambio = [], hEsActivo = False\<rparr>]),
                (''mensaje'', PStr ''Hoteles obtenidos correctamente.'')]"
proof -
  let ?r = "\<lparr>status_code = 200, resp_text = one_hotel_no_id_text\<rparr>"
  let ?bad = "Element (tem ''Hotel'') None
                [Element (tem ''Id'') None [], leaf ''Nombre'' ''Real'', leaf ''EsActivo'' ''true'']"
  let ?res = "Element (tem ''buscarHotelPorNombreResult'') None [?bad]"
  have p1: "parse_int ''abc'' = None"
    by (simp add: int_eval)
  have p2: "parse_int '' 42 '' = Some 42"
    by (simp add: int_eval)
  have p3: "CHR ''a'' \<in> set ''12a'' \<and> \<not> is_digit CHR ''a'' \<and> CHR ''a'' \<noteq> CHR ''_''
            \<and> CHR ''a'' \<noteq> CHR ''+'' \<and> CHR ''a'' \<noteq> CHR ''-'' \<and> \<not> is_int_space CHR ''a''"
    by (simp add: is_digit_def is_int_space_def)
  have b1: "find_child (tem ''Id'') bare_hotel = None"
    by (simp add: bare_hotel_def find_child_def tem_def)
  have b2: "find_child (tem ''Nombre'') bare_hotel = Some (Element (tem ''Nombre'') None [])"
    by (simp add: bare_hotel_def find_child_def tem_def)
  have b3: "find_child (tem ''FechaRegistro'') bare_hotel = None"
    by (simp add: bare_hotel_def find_child_def tem_def)
  have b4: "find_child (tem ''UltimaFechaCambio'') bare_hotel = None"
    by (simp add: bare_hotel_def find_child_def tem_def)
  have b5: "find_child (tem ''EsActivo'') bare_hotel = Some (Element (tem ''EsActivo'') None [])"
    by (simp add: bare_hotel_def find_child_def tem_def)
  have c1: "parse_int (findtext (tem ''Id'') ''0'' (hotel_node ''abc'' ''X'' ''true'')) = None"
    by (simp add: xml_eval int_eval)
  have w1: "safe_int (SStr ''abc'') = 0"
    by (rule field_defaults [where s = "''abc''", THEN conjunct2, THEN conjunct2, THEN conjunct1, THEN mp, OF p1])
  have w2: "safe_int (SStr '' 42 '') = 42"
    by (rule field_defaults [where s = "'' 42 ''" and n = 42, THEN conjunct2, THEN conjunct2, THEN conjunct2, THEN conjunct1, THEN mp, OF p2])
  have w3: "parse_int ''12a'' = None"
    by (rule field_defaults [where s = "''12a''" and c = "CHR ''a''", THEN conjunct2, THEN conjunct2, THEN conjunct2, THEN conjunct2, THEN conjunct1, THEN mp, OF p3])
  obtain h where h: "hotel_of_node bare_hotel = Inr h" "hId h = 0"
    using field_defaults [where node = bare_hotel, THEN conjunct2, THEN conjunct2, THEN conjunct2, THEN conjunct2, THEN conjunct2, THEN conjunct1, THEN mp, OF b1] by (elim exE conjE)
  note f1 = field_defaults [where node = bare_hotel and h = h and t = "tem ''Nombre''" and cs = "[]",
      THEN conjunct2, THEN conjunct2, THEN conjunct2, THEN conjunct2, THEN conjunct2, THEN conjunct2, THEN conjunct1, THEN mp, OF h(1)]
  note f2 = field_defaults [where node = bare_hotel and h = h and t = "tem ''EsActivo''" and cs = "[]",
      THEN conjunct2, THEN conjunct2, THEN conjunct2, THEN conjunct2, THEN conjunct2, THEN conjunct2, THEN conjunct1, THEN mp, OF h(1)]
  have g1: "hNombre h = []"
    using f1 [THEN conjunct1] b2 by simp
  have g2: "hFechaRegistro h = []"
    using f1 [THEN conjunct2, THEN conjunct1] b3 by simp
  have g3: "hUltimaFechaCambio h = []"
    using f1 [THEN conjunct2, THEN conjunct2, THEN conjunct1] b4 by simp
  have g4: "\<not> hEsActivo h"
    using f2 [THEN conjunct2, THEN conjunct2, THEN conjunct2] b5 by simp
  have w4: "hotel_of_node bare_hotel
       = Inr \<lparr>hId = 0, hNombre = [], hFechaRegistro = [], hUltimaFechaCambio = [], hEsActivo = False\<rparr>"
    using h g1 g2 g3 g4 by simp
  have w5: "\<exists>m. hotel_of_node (hotel_node ''abc'' ''X'' ''true'') = Inl (ValueError m)"
    by (rule field_defaults [where node = "hotel_node ''abc'' ''X'' ''true''", THEN conjunct2, THEN conjunct2, THEN conjunct2, THEN conjunct2, THEN conjunct2, THEN conjunct2, THEN conjunct2, THEN conjunct1, THEN mp, OF c1])
  have d1: "(\<forall>rq. post (env_answering one_hotel_no_id_text one_hotel_no_id) rq = Inr ?r)
            \<and> status_code ?r = 200
            \<and> fromstring (env_answering one_hotel_no_id_text one_hotel_no_id) (resp_text ?r) = Inr one_hotel_no_id
            \<and> find_desc (tem ''buscarHotelPorNombreResult'') one_hotel_no_id = Some ?res
            \<and> ?bad \<in> set (findall (tem ''Hotel'') ?res)
            \<and> parse_int (findtext (tem ''Id'') ''0'' ?bad) = None
            \<and> truthy (SStr ''Hotel'') \<and> isinstance_str (SStr ''Hotel'')"
    by (simp add: env_answering_def one_hotel_no_id_def xml_eval int_eval)
  have w6: "is_failure (fst (buscarHotelPorNombre (env_answering one_hotel_no_id_text one_hotel_no_id) (SStr ''Hotel'')))"
    by (rule field_defaults [where e = "env_answering one_hotel_no_id_text one_hotel_no_id"
        and r = ?r and root = one_hotel_no_id and result_node = ?res and node = ?bad
        and nombre = "SStr ''Hotel''", THEN conjunct2, THEN conjunct2, THEN conjunct2, THEN conjunct2, THEN conjunct2, THEN conjunct2, THEN conjunct2, THEN conjunct2, THEN conjunct1, THEN mp, OF d1])
  let ?r2 = "\<lparr>status_code = 200, resp_text = por_id_bad_text\<rparr>"
  have d2: "(\<forall>rq. post (env_answering por_id_bad_text por_id_bad) rq = Inr ?r2)
            \<and> status_code ?r2 = 200
            \<and> fromstring (env_answering por_id_bad_text por_id_bad) (resp_text ?r2) = Inr por_id_bad
            \<and> find_desc (tem ''seleccionarHotelPorIdResult'') por_id_bad = Some por_id_bad_result
            \<and> parse_int (findtext (tem ''Id'') ''0'' por_id_bad_result) = None
            \<and> isinstance_int (SInt 7) \<and> 0 < int_value (SInt 7)"
    by (simp add: env_answering_def por_id_bad_def por_id_bad_result_def xml_eval int_eval)
  have w7: "is_failure (fst (seleccionarHotelPorId (env_answering por_id_bad_text por_id_bad) (SInt 7)))"
    by (rule field_defaults [where e = "env_answering por_id_bad_text por_id_bad"
        and r = ?r2 and root = por_id_bad and node = por_id_bad_result and hotel_id = "SInt 7",
        THEN conjunct2, THEN conjunct2, THEN conjunct2, THEN conjunct2, THEN conjunct2, THEN conjunct2, THEN conjunct2, THEN conjunct2, THEN conjunct2, THEN conjunct1, THEN mp, OF d2])
  let ?r3 = "\<lparr>status_code = 200, resp_text = mixed_hoteles_text\<rparr>"
  have d3: "(\<forall>rq. post (env_answering mixed_hoteles_text mixed_hoteles) rq = Inr ?r3)
            \<and> status_code ?r3 = 200
            \<and> fromstring (env_answering mixed_hoteles_text mixed_hoteles) (resp_text ?r3) = Inr mixed_hoteles
            \<and> find_desc (tem ''seleccionarHotelesResult'') mixed_hoteles = Some mixed_hoteles_result"
    by (simp add: env_answering_def mixed_hoteles_def mixed_hoteles_result_def xml_eval)
  have d4: "List.map_filter (\<lambda>n. case hotel_of_node n of Inl ex \<Rightarrow> None | Inr h \<Rightarrow> Some h)
              (findall (tem ''Hotel'') mixed_hoteles_result)
            = [\<lparr>hId = 2, hNombre = ''B'', hFechaRegistro = [], hUltimaFechaCambio = [], hEsActivo = False\<rparr>]"
    by (simp add: mixed_hoteles_result_def hotel_of_node_def xml_eval int_eval
          List.map_filter_simps py_lower_false)
  have w8: "fst (seleccionarHoteles (env_answering mixed_hoteles_text mixed_hoteles))
       = PDict [(''exito'', PBool True),
                (''hoteles'', PList [hotel_dict \<lparr>hId = 2, hNombre = ''B'', hFechaRegistro = [],
                                                 hUltimaFechaCambio = [], hEsActivo = False\<rparr>]),
                (''mensaje'', PStr ''Hoteles obtenidos correctamente.'')]"
    using field_defaults [where e = "env_answering mixed_hoteles_text mixed_hoteles"
        and r = ?r3 and root = mixed_hoteles and result_node = mixed_hoteles_result,
        THEN conjunct2, THEN conjunct2, THEN conjunct2, THEN conjunct2, THEN conjunct2, THEN conjunct2, THEN conjunct2, THEN conjunct2, THEN conjunct2, THEN conjunct2, THEN mp, OF d3]
    unfolding d4 by simp
  show ?thesis
    using w1 w2 w3 w4 w5 w6 w7 w8 by (intro conjI) assumption+
qed

text \<open>
  Claim C5 as stated fails: one \<open>Hotel\<close> record with an empty \<open>Id\<close> element makes
  \<open>buscarHotelPorNombre\<close> return a failure value.
\<close>

theorem buscarHotelPorNombre_fails_on_empty_id:
  "is_failure (fst (buscarHotelPorNombre (env_answering one_hotel_no_id_text one_hotel_no_id) (SStr ''Real'')))"
  by (simp add: buscarHotelPorNombre_def buscarHotelPorNombre_result_def env_answering_def
        one_hotel_no_id_def hotel_of_node_def xml_eval int_eval try_except_def Let_def
        is_failure_def error_dict_def)

subsection \<open>Absent and empty result nodes\<close>




subsection \<open>Request serialization\<close>

lemma digit_char_props:
  assumes "d < 10"
  shows "is_digit (digit_char d)" and "digit_val (digit_char d) = d"
proof -
  have code: "(of_char (digit_char d) :: nat) = 48 + d"
    using assms by (simp add: digit_char_def)
  show "is_digit (digit_char d)" "digit_val (digit_char d) = d"
    using assms by (simp_all add: is_digit_def digit_val_def code)
qed

lemma dec_nat_digits:
  "list_all is_digit (dec_nat n) \<and> foldl (\<lambda>a c. 10 * a + digit_val c) 0 (dec_nat n) = n
   \<and> dec_nat n \<noteq> []"
proof (induction n rule: dec_nat.induct)
  case (1 n)
  show ?case
  proof (cases "n < 10")
    case True
    then show ?thesis
      by (simp add: dec_nat.simps [of n] digit_char_props)
  next
    case False
    then have m: "n mod 10 < 10" by simp
    from False 1 show ?thesis
      by (simp add: dec_nat.simps [of n] digit_char_props [OF m])
  qed
qed

lemma is_digit_not_other:
  assumes "is_digit c"
  shows "c \<noteq> CHR ''_''" and "c \<noteq> CHR ''-''" and "c \<noteq> CHR ''+''" and "\<not> is_int_space c"
  using assms by (auto simp add: is_digit_def is_int_space_def)

lemma digits_no_adjacent_underscores: "list_all is_digit ds \<Longrightarrow> \<not> adjacent_underscores ds"
  by (induction ds rule: adjacent_underscores.induct) (auto dest: is_digit_not_other)

lemma digits_run:
  assumes "list_all is_digit ds"
  shows "takeWhile (\<lambda>c. is_digit c \<or> c = CHR ''_'') ds = ds"
    and "dropWhile (\<lambda>c. is_digit c \<or> c = CHR ''_'') ds = []"
    and "filter is_digit ds = ds"
  using assms by (induction ds) simp_all

lemma digits_valid_run:
  assumes "list_all is_digit ds" and "ds \<noteq> []"
  shows "valid_run ds"
proof -
  from assms have "is_digit (hd ds)" "is_digit (last ds)"
    by (simp_all add: list_all_iff)
  with assms show ?thesis
    by (simp add: valid_run_def digits_no_adjacent_underscores)
qed

lemma read_int_digits:
  assumes "list_all is_digit ds" and "ds \<noteq> []" and "length ds \<le> int_max_str_digits"
  shows "read_int ds = IntValue (int (foldl (\<lambda>a c. 10 * a + digit_val c) 0 ds))"
    and "read_int (CHR ''-'' # ds) = IntValue (- int (foldl (\<lambda>a c. 10 * a + digit_val c) 0 ds))"
proof -
  obtain c cs where ds: "ds = c # cs"
    using assms(2) by (cases ds) auto
  with assms(1) have c: "is_digit c" by simp
  have sp: "\<not> is_int_space CHR ''-''"
    by (simp add: is_int_space_def)
  have t: "dropWhile is_int_space ds = ds"
    using c by (simp add: ds is_digit_not_other)
  have neg: "(case ds of [] \<Rightarrow> False | c # cs \<Rightarrow> c = CHR ''-'') = False"
    using c by (simp add: ds is_digit_not_other)
  have u: "(case ds of [] \<Rightarrow> [] | c # cs \<Rightarrow> if c = CHR ''-'' \<or> c = CHR ''+'' then cs else ds) = ds"
    using c by (simp add: ds is_digit_not_other)
  note run = digits_run [OF assms(1)] digits_valid_run [OF assms(1,2)]
  show "read_int ds = IntValue (int (foldl (\<lambda>a c. 10 * a + digit_val c) 0 ds))"
    unfolding read_int_def Let_def t neg u
    using assms(3) by (simp add: run)
  have t': "dropWhile is_int_space (CHR ''-'' # ds) = CHR ''-'' # ds"
    using sp by simp
  show "read_int (CHR ''-'' # ds) = IntValue (- int (foldl (\<lambda>a c. 10 * a + digit_val c) 0 ds))"
    unfolding read_int_def Let_def t'
    using assms(3) by (simp add: run)
qed

lemma py_int_str_int:
  assumes "length (dec_nat (nat \<bar>i\<bar>)) \<le> int_max_str_digits"
  shows "py_int (str_int i) = Inr i"
proof (cases "i < 0")
  case True
  then have "nat \<bar>i\<bar> = nat (- i)" by simp
  with assms True show ?thesis
    using dec_nat_digits [of "nat (- i)"]
    by (simp add: py_int_def str_int_def read_int_digits)
next
  case False
  then have "nat \<bar>i\<bar> = nat i" by simp
  with assms False show ?thesis
    using dec_nat_digits [of "nat i"]
    by (simp add: py_int_def str_int_def read_int_digits)
qed

lemma py_lower_True_False: "py_lower ''True'' = ''true''" "py_lower ''False'' = ''false''"
  by code_simp+

lemma dict_get_other_key: "k \<noteq> k' \<Longrightarrow> dict_get (d(k' \<mapsto> v)) k dflt = dict_get d k dflt"
  by (simp add: dict_get_def)

text \<open>
  Claim C7, as amended. For a hotel whose \<open>Id\<close> is a positive \<open>int\<close> of at most 4300
  digits, whose \<open>Nombre\<close> is a string that is not empty, whose two dates are strings and
  whose \<open>EsActivo\<close> is a \<open>bool\<close>, \<open>actualizarHotel\<close> posts one request, and its body is
  the envelope below: the \<open>Id\<close> in decimal, which \<open>int\<close> reads back, the three strings as
  they are, without any escaping, and the boolean as \<open>true\<close> or \<open>false\<close>. \<open>bool_str\<close> of
  wsReservas and \<open>_bool_str\<close> and \<open>bool_to_str\<close> of wsPagos give \<open>true\<close> for \<open>True\<close> and
  \<open>false\<close> for \<open>False\<close>. \<open>insertarPago\<close> does not read the \<open>Id\<close> of its record: the
  request is the same whatever that \<open>Id\<close> is.
\<close>

theorem request_body_exact:
  assumes "hotel ''Id'' = Some (SInt n)" and "0 < n"
    and "length (dec_nat (nat n)) \<le> int_max_str_digits"
    and "hotel ''Nombre'' = Some (SStr nombre)" and "nombre \<noteq> []"
    and "hotel ''FechaRegistro'' = Some (SStr fecha_registro)"
    and "hotel ''UltimaFechaCambio'' = Some (SStr ultima_fecha_cambio)"
    and "hotel ''EsActivo'' = Some (SBool es_activo)"
  shows "map data (snd (actualizarHotel e hotel))
           = [join_lines
               [''<?xml version=\"1.0\" encoding=\"utf-8\"?>'',
                ''        <soapenv:Envelope xmlns:soapenv=\"http://schemas.xmlsoap.org/soap/envelope/\"'',
                ''                          xmlns:tem=\"http://tempuri.org/\">'',
                ''          <soapenv:Header/>'',
                ''          <soapenv:Body>'',
                ''            <tem:actualizarHotel>'',
                ''              <tem:hotelEditado>'',
                ''                <tem:Id>'' @ str_int n @ ''</tem:Id>'',
                ''                <tem:Nombre>'' @ nombre @ ''</tem:Nombre>'',
                ''                <tem:FechaRegistro>'' @ fecha_registro @ ''</tem:FechaRegistro>'',
                ''                <tem:UltimaFechaCambio>'' @ ultima_fecha_cambio @ ''</tem:UltimaFechaCambio>'',
                ''                <tem:EsActivo>'' @ (if es_activo then ''true'' else ''false'') @ ''</tem:EsActivo>'',
                ''              </tem:hotelEditado>'',
                ''            </tem:actualizarHotel>'',
                ''          </soapenv:Body>'',
                ''        </soapenv:Envelope>'']]
       \<and> py_int (str_int n) = Inr n
       \<and> bool_str (SBool es_activo) = (if es_activo then ''true'' else ''false'')
       \<and> bool_str_pagos (SBool es_activo) = (if es_activo then ''true'' else ''false'')
       \<and> bool_to_str (SBool es_activo) = (if es_activo then ''true'' else ''false'')
       \<and> snd (insertarPago e (nuevo_pago(''Id'' \<mapsto> v))) = snd (insertarPago e nuevo_pago)"
proof -
  have low: "py_lower (py_str (SBool es_activo)) = (if es_activo then ''true'' else ''false'')"
    by (simp add: py_lower_True_False)
  have body: "map data (snd (actualizarHotel e hotel))
           = [join_lines
               [''<?xml version=\"1.0\" encoding=\"utf-8\"?>'',
                ''        <soapenv:Envelope xmlns:soapenv=\"http://schemas.xmlsoap.org/soap/envelope/\"'',
                ''                          xmlns:tem=\"http://tempuri.org/\">'',
                ''          <soapenv:Header/>'',
                ''          <soapenv:Body>'',
                ''            <tem:actualizarHotel>'',
                ''              <tem:hotelEditado>'',
                ''                <tem:Id>'' @ str_int n @ ''</tem:Id>'',
                ''                <tem:Nombre>'' @ nombre @ ''</tem:Nombre>'',
                ''                <tem:FechaRegistro>'' @ fecha_registro @ ''</tem:FechaRegistro>'',
                ''                <tem:UltimaFechaCambio>'' @ ultima_fecha_cambio @ ''</tem:UltimaFechaCambio>'',
                ''                <tem:EsActivo>'' @ (if es_activo then ''true'' else ''false'') @ ''</tem:EsActivo>'',
                ''              </tem:hotelEditado>'',
                ''            </tem:actualizarHotel>'',
                ''          </soapenv:Body>'',
                ''        </soapenv:Envelope>'']]"
    using assms(1,2,4-8) low
    by (simp add: actualizarHotel_def actualizarHotel_request_def hotel_request_def dict_get_def
          actualizarHotel_soap_body_def Let_def del: join_lines.simps)
  have rt: "py_int (str_int n) = Inr n"
    using assms(2,3) by (intro py_int_str_int) simp
  have b1: "bool_str (SBool es_activo) = (if es_activo then ''true'' else ''false'')"
    and b2: "bool_str_pagos (SBool es_activo) = (if es_activo then ''true'' else ''false'')"
    and b3: "bool_to_str (SBool es_activo) = (if es_activo then ''true'' else ''false'')"
    by (simp_all add: bool_str_def bool_str_pagos_def bool_to_str_def)
  have fechas: "(nuevo_pago(''Id'' \<mapsto> v)) ''FechaPago'' = nuevo_pago ''FechaPago''"
    "(nuevo_pago(''Id'' \<mapsto> v)) ''FechaRegistro'' = nuevo_pago ''FechaRegistro''"
    "(nuevo_pago(''Id'' \<mapsto> v)) ''UltimaFechaCambio'' = nuevo_pago ''UltimaFechaCambio''"
    by simp_all
  have "insertarPago_request e (nuevo_pago(''Id'' \<mapsto> v)) = insertarPago_request e nuevo_pago"
    unfolding insertarPago_request_def fechas
    by (simp add: dict_get_other_key)
  then have pago: "snd (insertarPago e (nuevo_pago(''Id'' \<mapsto> v))) = snd (insertarPago e nuevo_pago)"
    by (simp add: insertarPago_def Let_def)
  show ?thesis
    using body rt b1 b2 b3 pago by (intro conjI) assumption+
qed

lemma str_int_5: "str_int 5 = ''5''"
  by code_simp

lemma dec_nat_5: "dec_nat 5 = ''5''"
  by code_simp

theorem request_body_exact_witness:
  "map data (snd (actualizarHotel env_unavailable sample_hotel))
     = [join_lines
         [''<?xml version=\"1.0\" encoding=\"utf-8\"?>'',
          ''        <soapenv:Envelope xmlns:soapenv=\"http://schemas.xmlsoap.org/soap/envelope/\"'',
          ''                          xmlns:tem=\"http://tempuri.org/\">'',
          ''          <soapenv:Header/>'',
          ''          <soapenv:Body>'',
          ''            <tem:actualizarHotel>'',
          ''              <tem:hotelEditado>'',
          ''                <tem:Id>5</tem:Id>'',
          ''                <tem:Nombre>Hotel Real de Cuenca</tem:Nombre>'',
          ''                <tem:FechaRegistro>2023-10-28T10:00:00</tem:FechaRegistro>'',
          ''                <tem:UltimaFechaCambio>2025-10-28T12:00:00</tem:UltimaFechaCambio>'',
          ''                <tem:EsActivo>true</tem:EsActivo>'',
          ''              </tem:hotelEditado>'',
          ''            </tem:actualizarHotel>'',
          ''          </soapenv:Body>'',
          ''        </soapenv:Envelope>'']]
   \<and> py_int ''5'' = Inr 5
   \<and> bool_str (SBool True) = ''true''
   \<and> snd (insertarPago env_unavailable (sample_pago(''Id'' \<mapsto> SInt 9)))
       = snd (insertarPago env_unavailable sample_pago)"
proof -
  have h: "sample_hotel ''Id'' = Some (SInt 5)" "(0::int) < 5"
    "length (dec_nat (nat 5)) \<le> int_max_str_digits"
    "sample_hotel ''Nombre'' = Some (SStr ''Hotel Real de Cuenca'')"
    "''Hotel Real de Cuenca'' \<noteq> []"
    "sample_hotel ''FechaRegistro'' = Some (SStr ''2023-10-28T10:00:00'')"
    "sample_hotel ''UltimaFechaCambio'' = Some (SStr ''2025-10-28T12:00:00'')"
    "sample_hotel ''EsActivo'' = Some (SBool True)"
    by (simp_all add: sample_hotel_def dec_nat_5 int_max_str_digits_def)
  note t = request_body_exact [OF h, where e = env_unavailable and nuevo_pago = sample_pago
      and v = "SInt 9"]
  have w1: "map data (snd (actualizarHotel env_unavailable sample_hotel))
     = [join_lines
         [''<?xml version=\"1.0\" encoding=\"utf-8\"?>'',
          ''        <soapenv:Envelope xmlns:soapenv=\"http://schemas.xmlsoap.org/soap/envelope/\"'',
          ''                          xmlns:tem=\"http://tempuri.org/\">'',
          ''          <soapenv:Header/>'',
          ''          <soapenv:Body>'',
          ''            <tem:actualizarHotel>'',
          ''              <tem:hotelEditado>'',
          ''                <tem:Id>5</tem:Id>'',
          ''                <tem:Nombre>Hotel Real de Cuenca</tem:Nombre>'',
          ''                <tem:FechaRegistro>2023-10-28T10:00:00</tem:FechaRegistro>'',
          ''                <tem:UltimaFechaCambio>2025-10-28T12:00:00</tem:UltimaFechaCambio>'',
          ''                <tem:EsActivo>true</tem:EsActivo>'',
          ''              </tem:hotelEditado>'',
          ''            </tem:actualizarHotel>'',
          ''          </soapenv:Body>'',
          ''        </soapenv:Envelope>'']]"
    using t [THEN conjunct1] by (simp add: str_int_5 del: join_lines.simps)
  have w2: "py_int ''5'' = Inr 5"
    using t [THEN conjunct2, THEN conjunct1] by (simp add: str_int_5)
  have w3: "bool_str (SBool True) = ''true''"
    using t [THEN conjunct2, THEN conjunct2, THEN conjunct1] by simp
  have w4: "snd (insertarPago env_unavailable (sample_pago(''Id'' \<mapsto> SInt 9)))
       = snd (insertarPago env_unavailable sample_pago)"
    by (rule t [THEN conjunct2, THEN conjunct2, THEN conjunct2, THEN conjunct2, THEN conjunct2])
  show ?thesis
    using w1 w2 w3 w4 by (intro conjI) assumption+
qed

text \<open>
  Claim C7 as stated fails: for a record whose \<open>Id\<close> is 7, \<open>insertarPago\<close> posts a body
  whose \<open>Id\<close> element holds 0.
\<close>

theorem insertarPago_posts_constant_id:
  "sample_pago ''Id'' = Some (SInt 7)
   \<and> map data (snd (insertarPago env_unavailable sample_pago))
       = [join_lines
           [''<?xml version=\"1.0\" encoding=\"utf-8\"?>'',
            ''        <soapenv:Envelope xmlns:soapenv=\"http://schemas.xmlsoap.org/soap/envelope/\"'',
            ''                          xmlns:tem=\"http://tempuri.org/\">'',
            ''           <soapenv:Header/>'',
            ''           <soapenv:Body>'',
            ''              <tem:insertarPago>'',
            ''                 <tem:nuevoPago>'',
            ''                    <tem:Id>0</tem:Id>'',
            ''                    <tem:ReservaId>1</tem:ReservaId>'',
            ''                    <tem:Monto>0</tem:Monto>'',
            ''                    <tem:NumeroDeCedula>1712345678</tem:NumeroDeCedula>'',
            ''                    <tem:Estado>Pagado</tem:Estado>'',
            ''                    <tem:TransaccionReferencia>PAY-2025-0001</tem:TransaccionReferencia>'',
            ''                    <tem:Fuente>TarjetaCredito</tem:Fuente>'',
            ''                    <tem:FechaPago>2025-10-28T14:30:00</tem:FechaPago>'',
            ''                    <tem:FechaRegistro>2025-10-28T14:30:00</tem:FechaRegistro>'',
            ''                    <tem:UltimaFechaCambio>2025-10-28T14:30:00</tem:UltimaFechaCambio>'',
            ''                    <tem:EsActivo>true</tem:EsActivo>'',
            ''                 </tem:nuevoPago>'',
            ''              </tem:insertarPago>'',
            ''           </soapenv:Body>'',
            ''        </soapenv:Envelope>'']]"
proof -
  have s0: "str_int 0 = ''0''" and s1: "str_int 1 = ''1''"
    by code_simp+
  show ?thesis
    by (simp add: insertarPago_def insertarPago_request_def insertarPago_soap_body_def
          fmt_fecha_def sample_pago_def dict_get_def bool_to_str_def s0 s1 Let_def
          del: join_lines.simps)
qed

subsection \<open>Booleans of the response\<close>

lemma of_char_lower_char:
  "(of_char (lower_char c) :: nat) =
     (if (65 \<le> (of_char c :: nat) \<and> (of_char c :: nat) \<le> 90)
         \<or> (192 \<le> (of_char c :: nat) \<and> (of_char c :: nat) \<le> 222 \<and> (of_char c :: nat) \<noteq> 215)
      then of_char c + 32 else of_char c)"
  by (simp add: lower_char_def Let_def)

lemma lower_char_plain:
  assumes "(of_char d :: nat) < 128" and "\<not> (65 \<le> (of_char d :: nat) \<and> (of_char d :: nat) \<le> 90)"
  shows "lower_char c = d \<longleftrightarrow> spec_same_letter c d"
proof -
  have "lower_char c = d \<longleftrightarrow> (of_char (lower_char c) :: nat) = of_char d"
    by simp
  moreover have "c = d \<longleftrightarrow> (of_char c :: nat) = of_char d"
    by simp
  ultimately show ?thesis
    using assms unfolding spec_same_letter_def of_char_lower_char by auto
qed

lemma py_lower_plain:
  assumes "\<forall>d\<in>set t. (of_char d :: nat) < 128 \<and> \<not> (65 \<le> (of_char d :: nat) \<and> (of_char d :: nat) \<le> 90)"
  shows "py_lower s = t \<longleftrightarrow> spec_equals_ignoring_case s t"
  using assms
proof (induction s arbitrary: t)
  case Nil
  then show ?case by (auto simp add: py_lower_def spec_equals_ignoring_case_def)
next
  case (Cons c s)
  show ?case
  proof (cases t)
    case Nil
    then show ?thesis by (simp add: py_lower_def spec_equals_ignoring_case_def)
  next
    case (Cons d t')
    with Cons.prems have d: "(of_char d :: nat) < 128"
      "\<not> (65 \<le> (of_char d :: nat) \<and> (of_char d :: nat) \<le> 90)"
      and t': "\<forall>d\<in>set t'. (of_char d :: nat) < 128 \<and> \<not> (65 \<le> (of_char d :: nat) \<and> (of_char d :: nat) \<le> 90)"
      by simp_all
    from Cons.IH [OF t'] lower_char_plain [OF d, of c] show ?thesis
      by (simp add: Cons py_lower_def spec_equals_ignoring_case_def)
  qed
qed

lemma py_lower_true: "py_lower s = ''true'' \<longleftrightarrow> spec_equals_ignoring_case s ''true''"
  by (rule py_lower_plain) simp

lemma py_lower_1: "py_lower s = ''1'' \<longleftrightarrow> spec_equals_ignoring_case s ''1''"
  by (rule py_lower_plain) simp

lemma py_lower_yes: "py_lower s = ''yes'' \<longleftrightarrow> spec_equals_ignoring_case s ''yes''"
  by (rule py_lower_plain) simp

lemma last_dropWhile: "dropWhile P xs \<noteq> [] \<Longrightarrow> last (dropWhile P xs) = last xs"
  by (metis last_appendR takeWhile_dropWhile_id)

lemma py_strip_id:
  assumes "s = [] \<or> (\<not> is_space (hd s) \<and> \<not> is_space (last s))"
  shows "py_strip s = s"
proof (cases "s = []")
  case True
  then show ?thesis by (simp add: py_strip_def)
next
  case False
  with assms have "dropWhile is_space s = s"
    by (cases s) simp_all
  moreover from assms False have "dropWhile is_space (rev s) = rev s"
    by (cases "rev s") (simp_all add: hd_rev)
  ultimately show ?thesis by (simp add: py_strip_def)
qed

lemma py_strip_idem: "py_strip (py_strip s) = py_strip s"
proof (rule py_strip_id)
  let ?ys = "dropWhile is_space s"
  let ?zs = "dropWhile is_space (rev ?ys)"
  show "py_strip s = [] \<or> (\<not> is_space (hd (py_strip s)) \<and> \<not> is_space (last (py_strip s)))"
  proof (cases "?zs = []")
    case True
    then show ?thesis by (simp add: py_strip_def)
  next
    case False
    then have ys: "?ys \<noteq> []"
      by (metis dropWhile.simps(1) rev.simps(1))
    have "\<not> is_space (hd ?zs)"
      using False by (rule hd_dropWhile)
    then have l: "\<not> is_space (last (rev ?zs))"
      using False by (simp add: last_rev)
    have "last ?zs = last (rev ?ys)"
      using False by (rule last_dropWhile)
    also have "\<dots> = hd ?ys"
      using ys by (simp add: last_rev)
    finally have "hd (rev ?zs) = hd ?ys"
      using False by (simp add: hd_rev)
    moreover have "\<not> is_space (hd ?ys)"
      using ys by (rule hd_dropWhile)
    ultimately show ?thesis
      using l by (simp add: py_strip_def)
  qed
qed

text \<open>
  Claim C8, as amended. \<open>safe_bool\<close> of wsReservas and the scalar results
  (\<open>result_node.text.strip().lower() == "true"\<close>) are true exactly when the text, with the
  blanks around it stripped, is \<open>true\<close> in any mix of cases; the \<open>EsActivo\<close> field of a hotel
  is true exactly when its text, not stripped, is \<open>true\<close> in any mix of cases. The
  \<open>safe_bool\<close> of \<open>cotizarReserva\<close> and of \<open>buscarServicios\<close> in
  wsIntegracionDetalleServicios is true exactly when the stripped text is \<open>true\<close>, \<open>1\<close> or
  \<open>yes\<close> in any mix of cases, and so are the fields \<open>BreakfastIncluded\<close> and \<open>EsActivo\<close>
  they decode, which are false when the element is absent.
\<close>

theorem booleans_decoded_by_text:
  "safe_bool (SStr s) = spec_equals_ignoring_case (py_strip s) ''true''
   \<and> text_is_true (Some s) = Inr (spec_equals_ignoring_case (py_strip s) ''true'')
   \<and> (hotel_of_node node = Inr h \<longrightarrow>
        hEsActivo h = spec_equals_ignoring_case (findtext (tem ''EsActivo'') ''false'' node) ''true'')
   \<and> safe_bool_integracion (SStr s)
       = (spec_equals_ignoring_case (py_strip s) ''true''
          \<or> spec_equals_ignoring_case (py_strip s) ''1''
          \<or> spec_equals_ignoring_case (py_strip s) ''yes'')
   \<and> (find_child (tem ''BreakfastIncluded'') node = Some (Element t (Some s) cs) \<longrightarrow>
        cotizarReserva_BreakfastIncluded node
          = (spec_equals_ignoring_case (py_strip s) ''true''
             \<or> spec_equals_ignoring_case (py_strip s) ''1''
             \<or> spec_equals_ignoring_case (py_strip s) ''yes''))
   \<and> (find_child (tem ''EsActivo'') node = Some (Element t (Some s) cs) \<longrightarrow>
        buscarServicios_EsActivo node
          = (spec_equals_ignoring_case (py_strip s) ''true''
             \<or> spec_equals_ignoring_case (py_strip s) ''1''
             \<or> spec_equals_ignoring_case (py_strip s) ''yes''))
   \<and> (find_child (tem ''BreakfastIncluded'') node = None \<longrightarrow> \<not> cotizarReserva_BreakfastIncluded node)
   \<and> (find_child (tem ''EsActivo'') node = None \<longrightarrow> \<not> buscarServicios_EsActivo node)"
proof -
  have integ: "safe_bool_integracion (SStr x)
       = (spec_equals_ignoring_case (py_strip x) ''true''
          \<or> spec_equals_ignoring_case (py_strip x) ''1''
          \<or> spec_equals_ignoring_case (py_strip x) ''yes'')" for x
    by (simp add: safe_bool_integracion_def Let_def py_lower_true py_lower_1 py_lower_yes)
  have empty: "\<not> safe_bool_integracion (SStr [])"
    by (simp add: integ py_strip_def spec_equals_ignoring_case_def)
  have a1: "safe_bool (SStr s) = spec_equals_ignoring_case (py_strip s) ''true''"
    by (simp add: safe_bool_def py_lower_true)
  have a2: "text_is_true (Some s) = Inr (spec_equals_ignoring_case (py_strip s) ''true'')"
    by (simp add: text_is_true_def py_lower_true)
  have a3: "hotel_of_node node = Inr h \<longrightarrow>
        hEsActivo h = spec_equals_ignoring_case (findtext (tem ''EsActivo'') ''false'' node) ''true''"
    by (auto simp add: hotel_of_node_def py_lower_true split: sum.splits)
  have a5: "find_child (tem ''BreakfastIncluded'') node = Some (Element t (Some s) cs) \<longrightarrow>
        cotizarReserva_BreakfastIncluded node
          = (spec_equals_ignoring_case (py_strip s) ''true''
             \<or> spec_equals_ignoring_case (py_strip s) ''1''
             \<or> spec_equals_ignoring_case (py_strip s) ''yes'')"
  proof (cases "s = []")
    case True
    then show ?thesis
      using integ [of "[]"]
      by (simp add: cotizarReserva_BreakfastIncluded_def cotizarReserva_get_text_def
            findtext_def Let_def)
  next
    case False
    then show ?thesis
      using integ [of "py_strip s"]
      by (simp add: cotizarReserva_BreakfastIncluded_def cotizarReserva_get_text_def
            findtext_def Let_def py_strip_idem)
  qed
  have a6: "find_child (tem ''EsActivo'') node = Some (Element t (Some s) cs) \<longrightarrow>
        buscarServicios_EsActivo node
          = (spec_equals_ignoring_case (py_strip s) ''true''
             \<or> spec_equals_ignoring_case (py_strip s) ''1''
             \<or> spec_equals_ignoring_case (py_strip s) ''yes'')"
  proof (cases "s = []")
    case True
    then show ?thesis
      using integ [of "[]"]
      by (simp add: buscarServicios_EsActivo_def buscarServicios_get_text_def)
  next
    case False
    then show ?thesis
      using integ [of "py_strip s"]
      by (simp add: buscarServicios_EsActivo_def buscarServicios_get_text_def py_strip_idem)
  qed
  have a7: "find_child (tem ''BreakfastIncluded'') node = None \<longrightarrow> \<not> cotizarReserva_BreakfastIncluded node"
    using empty
    by (simp add: cotizarReserva_BreakfastIncluded_def cotizarReserva_get_text_def findtext_def
          Let_def)
  have a8: "find_child (tem ''EsActivo'') node = None \<longrightarrow> \<not> buscarServicios_EsActivo node"
    using empty by (simp add: buscarServicios_EsActivo_def buscarServicios_get_text_def)
  show ?thesis
    using a1 a2 a3 integ [of s] a5 a6 a7 a8 by (intro conjI) assumption+
qed

theorem booleans_decoded_by_text_witness:
  "safe_bool (SStr ''TRUE'') \<and> \<not> safe_bool (SStr ''1'')
   \<and> text_is_true (Some '' True '') = Inr True
   \<and> hotel_of_node (hotel_node ''3'' ''C'' ''True'') = Inr (three_hotel_recs ! 2)
   \<and> hEsActivo (three_hotel_recs ! 2)
   \<and> safe_bool_integracion (SStr ''YES'') \<and> \<not> safe_bool_integracion (SStr ''no'')
   \<and> cotizarReserva_BreakfastIncluded (Element (tem ''cotizarReservaResult'') None [leaf ''BreakfastIncluded'' '' 1 ''])
   \<and> \<not> buscarServicios_EsActivo (Element (tem ''DTO_WS_IntegracionDetalleEspacio'') None [leaf ''EsActivo'' ''false''])
   \<and> \<not> buscarServicios_EsActivo (Element (tem ''DTO_WS_IntegracionDetalleEspacio'') None [])"
proof -
  let ?n1 = "Element (tem ''cotizarReservaResult'') None [leaf ''BreakfastIncluded'' '' 1 '']"
  let ?n2 = "Element (tem ''DTO_WS_IntegracionDetalleEspacio'') None [leaf ''EsActivo'' ''false'']"
  let ?n3 = "Element (tem ''DTO_WS_IntegracionDetalleEspacio'') None []"
  have strip: "py_strip ''TRUE'' = ''TRUE''" "py_strip ''1'' = ''1''" "py_strip ''YES'' = ''YES''"
    "py_strip ''no'' = ''no''" "py_strip '' True '' = ''True''" "py_strip '' 1 '' = ''1''"
    "py_strip ''false'' = ''false''"
    by (simp_all add: py_strip_def is_space_def)
  have node: "hotel_of_node (hotel_node ''3'' ''C'' ''True'') = Inr (three_hotel_recs ! 2)"
    by code_simp
  have ft: "findtext (tem ''EsActivo'') ''false'' (hotel_node ''3'' ''C'' ''True'') = ''True''"
    by (simp add: xml_eval)
  have f1: "find_child (tem ''BreakfastIncluded'') ?n1
              = Some (Element (tem ''BreakfastIncluded'') (Some '' 1 '') [])"
    by (simp add: xml_eval)
  have f2: "find_child (tem ''EsActivo'') ?n2 = Some (Element (tem ''EsActivo'') (Some ''false'') [])"
    by (simp add: xml_eval)
  have f3: "find_child (tem ''EsActivo'') ?n3 = None"
    by (simp add: xml_eval)
  note ev = strip spec_equals_ignoring_case_def spec_same_letter_def
  have w1: "safe_bool (SStr ''TRUE'')"
    using booleans_decoded_by_text [where s = "''TRUE''", THEN conjunct1] by (simp add: ev)
  have w2: "\<not> safe_bool (SStr ''1'')"
    using booleans_decoded_by_text [where s = "''1''", THEN conjunct1] by (simp add: ev)
  have w3: "text_is_true (Some '' True '') = Inr True"
    using booleans_decoded_by_text [where s = "'' True ''", THEN conjunct2, THEN conjunct1] by (simp add: ev)
  have w4: "hEsActivo (three_hotel_recs ! 2)"
    using booleans_decoded_by_text [where node = "hotel_node ''3'' ''C'' ''True''"
        and h = "three_hotel_recs ! 2", THEN conjunct2, THEN conjunct2, THEN conjunct1, THEN mp, OF node]
    by (simp add: ft ev)
  have w5: "safe_bool_integracion (SStr ''YES'')"
    using booleans_decoded_by_text [where s = "''YES''", THEN conjunct2, THEN conjunct2, THEN conjunct2, THEN conjunct1] by (simp add: ev)
  have w6: "\<not> safe_bool_integracion (SStr ''no'')"
    using booleans_decoded_by_text [where s = "''no''", THEN conjunct2, THEN conjunct2, THEN conjunct2, THEN conjunct1] by (simp add: ev)
  have w7: "cotizarReserva_BreakfastIncluded ?n1"
    using booleans_decoded_by_text [where node = ?n1 and s = "'' 1 ''"
        and t = "tem ''BreakfastIncluded''" and cs = "[]", THEN conjunct2, THEN conjunct2, THEN conjunct2, THEN conjunct2, THEN conjunct1, THEN mp, OF f1]
    by (simp add: ev)
  have w8: "\<not> buscarServicios_EsActivo ?n2"
    using booleans_decoded_by_text [where node = ?n2 and s = "''false''"
        and t = "tem ''EsActivo''" and cs = "[]", THEN conjunct2, THEN conjunct2, THEN conjunct2, THEN conjunct2, THEN conjunct2, THEN conjunct1, THEN mp, OF f2]
    by (simp add: ev)
  have w9: "\<not> buscarServicios_EsActivo ?n3"
    by (rule booleans_decoded_by_text [where node = ?n3, THEN conjunct2, THEN conjunct2, THEN conjunct2, THEN conjunct2, THEN conjunct2, THEN conjunct2, THEN conjunct2, THEN mp, OF f3])
  show ?thesis
    using w1 w2 w3 node w4 w5 w6 w7 w8 w9 by (intro conjI) assumption+
qed

text \<open>
  Claim C8 as stated fails: \<open>safe_bool\<close> of wsReservas decodes the text \<open>" true "\<close> as
  true, and the \<open>safe_bool\<close> of wsIntegracionDetalleServicios decodes \<open>1\<close> and \<open>yes\<close> as
  true; none of the three texts equals \<open>true\<close> under a comparison that ignores case.
\<close>

theorem booleans_true_for_other_texts:
  "safe_bool (SStr '' true '') \<and> \<not> spec_equals_ignoring_case '' true '' ''true''
   \<and> safe_bool_integracion (SStr ''1'') \<and> \<not> spec_equals_ignoring_case ''1'' ''true''
   \<and> buscarServicios_EsActivo (Element (tem ''DTO_WS_IntegracionDetalleEspacio'') None [leaf ''EsActivo'' ''yes''])
   \<and> \<not> spec_equals_ignoring_case ''yes'' ''true''"
proof -
  have low: "py_lower ''true'' = ''true''" "py_lower ''1'' = ''1''" "py_lower ''yes'' = ''yes''"
    by code_simp+
  have strip: "py_strip '' true '' = ''true''" "py_strip ''1'' = ''1''" "py_strip ''yes'' = ''yes''"
    by (simp_all add: py_strip_def is_space_def)
  show ?thesis
    by (simp add: safe_bool_def safe_bool_integracion_def buscarServicios_EsActivo_def
          buscarServicios_get_text_def xml_eval strip low Let_def spec_equals_ignoring_case_def)
qed

end
